theory Spec2Isabelle
  imports Main "HOL-Library.Word" "HOL-Library.AList"
begin

unbundle bit_operations_syntax

section \<open>Callback objects of the JavaScriptCore C API (JSCallbackObjectFunctions.h)\<close>

text \<open>
  A shallow embedding of \<^verbatim>\<open>JSCallbackObject<Parent>\<close>: the property and call
  protocol that routes operations on a host-defined object through the callback
  tables of its class and of the class's ancestors.

  The host callbacks are C function pointers. Here a callback is an optional function
  (\<open>None\<close> is the null pointer) that reads and updates a host state \<open>'h\<close> and returns
  what the C callback returns: its result together with the value it stored through
  its \<^verbatim>\<open>JSValueRef* exception\<close> parameter, if the signature has one. What a
  callback may change is the host state: a callback that re-enters the engine and
  changes the instance's own properties is outside this model, and so is the engine's
  lock (\<^verbatim>\<open>JSLock::DropAllLocks\<close>).
\<close>

subsection \<open>Values, names and attributes\<close>

type_synonym name = string

text \<open>\<^verbatim>\<open>PropertyName\<close>; \<^verbatim>\<open>uid()\<close> is a \<^verbatim>\<open>StringImpl*\<close> and may be null.\<close>

datatype PropertyName = PropertyName (uid: "name option")

text \<open>
  Engine values. \<open>JSCell n\<close> is the object in heap cell \<open>n\<close>: two values are the
  identical object when they are the same cell. \<open>ReferenceError m\<close> is the error object
  that \<^verbatim>\<open>createReferenceError(exec, m)\<close> builds.
\<close>

datatype jsvalue =
    JSUndefined
  | JSBoolean bool
  | JSNumber int
  | JSString string
  | JSCell nat
  | ReferenceError string

text \<open>A \<^verbatim>\<open>JSValueRef\<close> is a nullable handle: \<open>None\<close> is the null pointer.\<close>

type_synonym JSValueRef = "jsvalue option"

type_synonym JSPropertyAttributes = "32 word"

text \<open>
  Modelled from the spec: the attribute flags ReadOnly, DontEnum and DontDelete, whose
  declaration (JSObjectRef.h) is not among the sources. They are the bits 1, 2 and 3 of
  the \<^verbatim>\<open>unsigned\<close> attribute word, and the code tests them with \<^verbatim>\<open>&\<close>.
\<close>

definition kJSPropertyAttributeNone :: JSPropertyAttributes where
  "kJSPropertyAttributeNone = 0"

definition kJSPropertyAttributeReadOnly :: JSPropertyAttributes where
  "kJSPropertyAttributeReadOnly = 2"

definition kJSPropertyAttributeDontEnum :: JSPropertyAttributes where
  "kJSPropertyAttributeDontEnum = 4"

definition kJSPropertyAttributeDontDelete :: JSPropertyAttributes where
  "kJSPropertyAttributeDontDelete = 8"

subsection \<open>Callback signatures\<close>

text \<open>
  The version 0 signatures, and the version 1000 (\<open>Ex\<close>) signatures, which receive the
  class as well. A class is passed to a callback as its \<open>ref\<close>, the number that stands
  for the \<^verbatim>\<open>JSClassRef\<close> pointer. The context and the object handle are the same in
  every call on one instance and are left out.
\<close>

type_synonym 'h JSObjectInitializeCallback = "'h \<Rightarrow> 'h"
type_synonym 'h JSObjectInitializeCallbackEx = "nat \<Rightarrow> 'h \<Rightarrow> 'h"
type_synonym 'h JSObjectFinalizeCallback = "'h \<Rightarrow> 'h"
type_synonym 'h JSObjectFinalizeCallbackEx = "nat \<Rightarrow> 'h \<Rightarrow> 'h"
type_synonym 'h JSObjectHasPropertyCallback = "name \<Rightarrow> 'h \<Rightarrow> bool \<times> 'h"
type_synonym 'h JSObjectHasPropertyCallbackEx = "nat \<Rightarrow> name \<Rightarrow> 'h \<Rightarrow> bool \<times> 'h"
type_synonym 'h JSObjectGetPropertyCallback =
  "name \<Rightarrow> 'h \<Rightarrow> (JSValueRef \<times> JSValueRef) \<times> 'h"
type_synonym 'h JSObjectGetPropertyCallbackEx =
  "nat \<Rightarrow> name \<Rightarrow> 'h \<Rightarrow> (JSValueRef \<times> JSValueRef) \<times> 'h"
type_synonym 'h JSObjectSetPropertyCallback =
  "name \<Rightarrow> jsvalue \<Rightarrow> 'h \<Rightarrow> (bool \<times> JSValueRef) \<times> 'h"
type_synonym 'h JSObjectSetPropertyCallbackEx =
  "nat \<Rightarrow> name \<Rightarrow> jsvalue \<Rightarrow> 'h \<Rightarrow> (bool \<times> JSValueRef) \<times> 'h"
type_synonym 'h JSObjectDeletePropertyCallback =
  "name \<Rightarrow> 'h \<Rightarrow> (bool \<times> JSValueRef) \<times> 'h"
type_synonym 'h JSObjectDeletePropertyCallbackEx =
  "nat \<Rightarrow> name \<Rightarrow> 'h \<Rightarrow> (bool \<times> JSValueRef) \<times> 'h"
type_synonym 'h JSObjectGetPropertyNamesCallback = "'h \<Rightarrow> name list \<times> 'h"
type_synonym 'h JSObjectGetPropertyNamesCallbackEx = "nat \<Rightarrow> 'h \<Rightarrow> name list \<times> 'h"
type_synonym 'h JSObjectCallAsFunctionCallback =
  "jsvalue \<Rightarrow> jsvalue list \<Rightarrow> 'h \<Rightarrow> (JSValueRef \<times> JSValueRef) \<times> 'h"
type_synonym 'h JSObjectCallAsFunctionCallbackEx =
  "nat \<Rightarrow> jsvalue \<Rightarrow> jsvalue list \<Rightarrow> 'h \<Rightarrow> (JSValueRef \<times> JSValueRef) \<times> 'h"

subsection \<open>Class descriptors\<close>

text \<open>The two callback tables of a class, \<^verbatim>\<open>jsClass->v0\<close> and \<^verbatim>\<open>jsClass->v1000\<close>.\<close>

record 'h ClassCallbacks_v0 =
  initialize :: "'h JSObjectInitializeCallback option"
  finalize :: "'h JSObjectFinalizeCallback option"
  hasProperty :: "'h JSObjectHasPropertyCallback option"
  getProperty :: "'h JSObjectGetPropertyCallback option"
  setProperty :: "'h JSObjectSetPropertyCallback option"
  deleteProperty :: "'h JSObjectDeletePropertyCallback option"
  getPropertyNames :: "'h JSObjectGetPropertyNamesCallback option"
  callAsFunction :: "'h JSObjectCallAsFunctionCallback option"

record 'h ClassCallbacks_v1000 =
  initializeEx :: "'h JSObjectInitializeCallbackEx option"
  finalizeEx :: "'h JSObjectFinalizeCallbackEx option"
  hasPropertyEx :: "'h JSObjectHasPropertyCallbackEx option"
  getPropertyEx :: "'h JSObjectGetPropertyCallbackEx option"
  setPropertyEx :: "'h JSObjectSetPropertyCallbackEx option"
  deletePropertyEx :: "'h JSObjectDeletePropertyCallbackEx option"
  getPropertyNamesEx :: "'h JSObjectGetPropertyNamesCallbackEx option"
  callAsFunctionEx :: "'h JSObjectCallAsFunctionCallbackEx option"

text \<open>
  \<^verbatim>\<open>StaticValueEntry\<close> and \<^verbatim>\<open>StaticFunctionEntry\<close>: the entry's own version, its
  callbacks of either version (\<^verbatim>\<open>entry->v0.getProperty\<close>,
  \<^verbatim>\<open>entry->v1000.getPropertyEx\<close>, ...) and its attributes.
\<close>

record 'h StaticValueEntry =
  value_version :: int
  value_v0_getProperty :: "'h JSObjectGetPropertyCallback option"
  value_v0_setProperty :: "'h JSObjectSetPropertyCallback option"
  value_v1000_getPropertyEx :: "'h JSObjectGetPropertyCallbackEx option"
  value_v1000_setPropertyEx :: "'h JSObjectSetPropertyCallbackEx option"
  value_attributes :: JSPropertyAttributes

record 'h StaticFunctionEntry =
  function_version :: int
  function_v0_callAsFunction :: "'h JSObjectCallAsFunctionCallback option"
  function_v1000_callAsFunctionEx :: "'h JSObjectCallAsFunctionCallbackEx option"
  function_attributes :: JSPropertyAttributes

text \<open>
  A static table is a hash map from names to entries; \<^verbatim>\<open>jsClass->staticValues(exec)\<close>
  is null when the class has none. The table is an association list: \<open>map_of\<close> is
  \<^verbatim>\<open>get\<close> and \<^verbatim>\<open>contains\<close>, and the order of the list is the order in which the
  table's iterator visits the entries.
\<close>

type_synonym 'h OpaqueJSClassStaticValuesTable = "(name \<times> 'h StaticValueEntry) list"
type_synonym 'h OpaqueJSClassStaticFunctionsTable = "(name \<times> 'h StaticFunctionEntry) list"

text \<open>
  \<^verbatim>\<open>OpaqueJSClass\<close>. \<open>parentClass\<close> is the nullable pointer to the parent; the
  datatype makes the chain of parents finite.
\<close>

datatype 'h OpaqueJSClass = OpaqueJSClass
  (ref: nat)
  (version: int)
  (v0: "'h ClassCallbacks_v0")
  (v1000: "'h ClassCallbacks_v1000")
  (staticValues: "'h OpaqueJSClassStaticValuesTable option")
  (staticFunctions: "'h OpaqueJSClassStaticFunctionsTable option")
  (parentClass: "'h OpaqueJSClass option")

text \<open>
  The classes that
  \<^verbatim>\<open>for (jsClass = classRef(); jsClass; jsClass = jsClass->parentClass)\<close> visits,
  in the order it visits them.
\<close>

fun classChain :: "'h OpaqueJSClass \<Rightarrow> 'h OpaqueJSClass list" where
  "classChain (OpaqueJSClass r ver c0 c1000 sv sf p) =
     OpaqueJSClass r ver c0 c1000 sv sf p #
       (case p of None \<Rightarrow> [] | Some parent \<Rightarrow> classChain parent)"

subsection \<open>The instance and the engine state around it\<close>

text \<open>
  A function object made by \<^verbatim>\<open>JSCallbackFunction::create\<close>: the callback it is
  bound to, the class for a version 1000 callback, and its name.
\<close>

datatype 'h JSCallbackFunction =
    CallbackFunction "'h JSObjectCallAsFunctionCallback" name
  | CallbackFunctionEx nat "'h JSObjectCallAsFunctionCallbackEx" name

datatype callbackKind =
    Initialize | Finalize | HasProperty | GetProperty | SetProperty | DeleteProperty
  | GetPropertyNames | CallAsFunction | StaticValueGet | StaticValueSet

text \<open>One invocation of a host callback: the class whose table held it, and its kind.\<close>

datatype event = Callback nat callbackKind

text \<open>
  The state the operations run in: the host's state; the own properties of the generic
  object under the instance (value and attributes, in insertion order); the VM's pending
  exception; the heap cells holding the function objects made so far and the next free
  cell; and a log of the host callbacks invoked, oldest first. The log is a ghost field:
  the code does not keep it, and nothing reads it.
\<close>

record 'h world =
  host :: 'h
  properties :: "(PropertyName \<times> jsvalue \<times> JSPropertyAttributes) list"
  exception :: "jsvalue option"
  cells :: "nat \<Rightarrow> 'h JSCallbackFunction option"
  allocated :: nat
  trace :: "event list"

text \<open>Calling a host callback: it runs on the host state, and the log records it.\<close>

definition invoke :: "event \<Rightarrow> ('h \<Rightarrow> 'r \<times> 'h) \<Rightarrow> 'h world \<Rightarrow> 'r \<times> 'h world" where
  "invoke ev callback w =
     (case callback (host w) of
        (r, h) \<Rightarrow> (r, w\<lparr>host := h, trace := trace w @ [ev]\<rparr>))"

text \<open>
  Modelled from the spec: the throw primitive (\<^verbatim>\<open>throwException\<close>, not among the
  sources), which makes a value the VM's pending exception.
\<close>

definition throwException :: "jsvalue \<Rightarrow> 'h world \<Rightarrow> 'h world" where
  "throwException e w = w\<lparr>exception := Some e\<rparr>"

subsection \<open>The generic object\<close>

text \<open>
  Modelled from the spec: the generic object's own resolution, put, delete and
  enumeration (\<^verbatim>\<open>Parent::getOwnPropertySlot\<close>, \<^verbatim>\<open>Parent::put\<close>,
  \<^verbatim>\<open>putDirect\<close>, \<^verbatim>\<open>Parent::deleteProperty\<close>,
  \<^verbatim>\<open>Parent::getOwnNonIndexPropertyNames\<close>). \<^verbatim>\<open>Parent\<close> is a template parameter and
  its code is not among the sources. It is modelled as an ordinary object holding own
  data properties: a put writes an existing property unless it is ReadOnly and adds a
  missing one, putDirect writes value and attributes unconditionally, a delete removes
  a property unless it is DontDelete, and enumeration lists the names that are not
  DontEnum.
\<close>

definition Parent_getOwnPropertySlot :: "PropertyName \<Rightarrow> 'h world \<Rightarrow> jsvalue option" where
  "Parent_getOwnPropertySlot propertyName w =
     map_option fst (map_of (properties w) propertyName)"

definition putDirect ::
  "PropertyName \<Rightarrow> jsvalue \<Rightarrow> JSPropertyAttributes \<Rightarrow> 'h world \<Rightarrow> bool \<times> 'h world" where
  "putDirect propertyName v attributes w =
     (True, w\<lparr>properties := AList.update propertyName (v, attributes) (properties w)\<rparr>)"

definition Parent_put :: "PropertyName \<Rightarrow> jsvalue \<Rightarrow> 'h world \<Rightarrow> bool \<times> 'h world" where
  "Parent_put propertyName v w =
     (case map_of (properties w) propertyName of
        Some (old, attributes) \<Rightarrow>
          if attributes AND kJSPropertyAttributeReadOnly \<noteq> 0 then (False, w)
          else putDirect propertyName v attributes w
      | None \<Rightarrow> putDirect propertyName v kJSPropertyAttributeNone w)"

definition Parent_deleteProperty :: "PropertyName \<Rightarrow> 'h world \<Rightarrow> bool \<times> 'h world" where
  "Parent_deleteProperty propertyName w =
     (case map_of (properties w) propertyName of
        Some (old, attributes) \<Rightarrow>
          if attributes AND kJSPropertyAttributeDontDelete \<noteq> 0 then (False, w)
          else (True, w\<lparr>properties := AList.delete propertyName (properties w)\<rparr>)
      | None \<Rightarrow> (True, w))"

subsection \<open>put\<close>

text \<open>
  The callbacks \<^verbatim>\<open>put\<close> reads from the class before anything else:
  \<^verbatim>\<open>setProperty = jsClass->version == 0 ? jsClass->v0.setProperty : nullptr\<close> and
  \<^verbatim>\<open>setPropertyEx = jsClass->version == 1000 ? jsClass->v1000.setPropertyEx : nullptr\<close>.
\<close>

definition class_setProperty ::
  "'h OpaqueJSClass \<Rightarrow> 'h JSObjectSetPropertyCallback option" where
  "class_setProperty jsClass =
     (if version jsClass = 0 then setProperty (v0 jsClass) else None)"

definition class_setPropertyEx ::
  "'h OpaqueJSClass \<Rightarrow> 'h JSObjectSetPropertyCallbackEx option" where
  "class_setPropertyEx jsClass =
     (if version jsClass = 1000 then setPropertyEx (v1000 jsClass) else None)"

text \<open>
  What follows a set or delete callback:
  \<^verbatim>\<open>if (exception) throwException(...); if (result || exception) return result;\<close>.
  \<open>Some r\<close> is \<^verbatim>\<open>return r\<close>; \<open>None\<close> lets the walk go on.
\<close>

definition put_result ::
  "(bool \<times> JSValueRef) \<times> 'h world \<Rightarrow> bool option \<times> 'h world" where
  "put_result r =
     (case r of
        ((result, None), w) \<Rightarrow> (if result then Some result else None, w)
      | ((result, Some e), w) \<Rightarrow> (Some result, throwException e w))"

text \<open>Lines 299 to 313: the class's own set callback.\<close>

definition put_setProperty ::
  "'h OpaqueJSClass \<Rightarrow> name \<Rightarrow> jsvalue \<Rightarrow> 'h world \<Rightarrow> bool option \<times> 'h world" where
  "put_setProperty jsClass name valueRef w =
     (case class_setProperty jsClass of
        Some setProperty' \<Rightarrow>
          put_result (invoke (Callback (ref jsClass) SetProperty) (setProperty' name valueRef) w)
      | None \<Rightarrow>
          (case class_setPropertyEx jsClass of
             Some setPropertyEx' \<Rightarrow>
               put_result (invoke (Callback (ref jsClass) SetProperty)
                 (setPropertyEx' (ref jsClass) name valueRef) w)
           | None \<Rightarrow> (None, w)))"

text \<open>
  Lines 316 to 337: the static value of that name. The test before the call reads the
  class's \<^verbatim>\<open>setProperty\<close> and \<^verbatim>\<open>setPropertyEx\<close> of lines 296 and 297; the
  callback then called is \<^verbatim>\<open>entry->v0.setProperty\<close>, whose declaration hides the
  class's \<^verbatim>\<open>setProperty\<close> inside the block, so the conditional expression that
  chooses between the two always takes the entry's.
\<close>

definition put_staticValue ::
  "'h OpaqueJSClass \<Rightarrow> name \<Rightarrow> jsvalue \<Rightarrow> 'h world \<Rightarrow> bool option \<times> 'h world" where
  "put_staticValue jsClass name valueRef w =
     (case staticValues jsClass of
        None \<Rightarrow> (None, w)
      | Some table \<Rightarrow>
          (case map_of table name of
             None \<Rightarrow> (None, w)
           | Some entry \<Rightarrow>
               if value_attributes entry AND kJSPropertyAttributeReadOnly \<noteq> 0
               then (Some False, w)
               else if (value_version entry = 0 \<and> class_setProperty jsClass \<noteq> None)
                     \<or> (value_version entry = 1000 \<and> class_setPropertyEx jsClass \<noteq> None)
               then
                 (case value_v0_setProperty entry of
                    Some setProperty' \<Rightarrow>
                      put_result (invoke (Callback (ref jsClass) StaticValueSet)
                        (setProperty' name valueRef) w)
                  | None \<Rightarrow> (None, w))
               else (None, w)))"

text \<open>Lines 339 to 348: the static function of that name.\<close>

definition put_staticFunction ::
  "'h OpaqueJSClass \<Rightarrow> PropertyName \<Rightarrow> name \<Rightarrow> jsvalue \<Rightarrow> 'h world
     \<Rightarrow> bool option \<times> 'h world" where
  "put_staticFunction jsClass propertyName name v w =
     (case staticFunctions jsClass of
        None \<Rightarrow> (None, w)
      | Some table \<Rightarrow>
          (case map_of table name of
             None \<Rightarrow> (None, w)
           | Some entry \<Rightarrow>
               if Parent_getOwnPropertySlot propertyName w \<noteq> None
               then (case Parent_put propertyName v w of (r, w') \<Rightarrow> (Some r, w'))
               else if function_attributes entry AND kJSPropertyAttributeReadOnly \<noteq> 0
               then (Some False, w)
               else (case putDirect propertyName v kJSPropertyAttributeNone w of
                       (r, w') \<Rightarrow> (Some r, w'))))"

text \<open>
  The body of the loop for one class, lines 296 to 348: \<open>Some r\<close> is \<^verbatim>\<open>return r\<close>,
  \<open>None\<close> is the end of the body.
\<close>

definition put_class ::
  "'h OpaqueJSClass \<Rightarrow> PropertyName \<Rightarrow> name \<Rightarrow> jsvalue \<Rightarrow> 'h world
     \<Rightarrow> bool option \<times> 'h world" where
  "put_class jsClass propertyName name v w =
     (case put_setProperty jsClass name v w of
        (Some r, w1) \<Rightarrow> (Some r, w1)
      | (None, w1) \<Rightarrow>
          (case put_staticValue jsClass name v w1 of
             (Some r, w2) \<Rightarrow> (Some r, w2)
           | (None, w2) \<Rightarrow> put_staticFunction jsClass propertyName name v w2))"

text \<open>The loop over the chain, and \<^verbatim>\<open>Parent::put\<close> after it.\<close>

fun put_loop ::
  "'h OpaqueJSClass list \<Rightarrow> PropertyName \<Rightarrow> name \<Rightarrow> jsvalue \<Rightarrow> 'h world \<Rightarrow> bool \<times> 'h world" where
  "put_loop [] propertyName name v w = Parent_put propertyName v w"
| "put_loop (jsClass # chain) propertyName name v w =
     (case put_class jsClass propertyName name v w of
        (Some r, w') \<Rightarrow> (r, w')
      | (None, w') \<Rightarrow> put_loop chain propertyName name v w')"

text \<open>\<^verbatim>\<open>JSCallbackObject<Parent>::put\<close> on an instance of class \<open>classRef\<close>.\<close>

definition put ::
  "'h OpaqueJSClass \<Rightarrow> PropertyName \<Rightarrow> jsvalue \<Rightarrow> 'h world \<Rightarrow> bool \<times> 'h world" where
  "put classRef propertyName v w =
     (case uid propertyName of
        Some name \<Rightarrow> put_loop (classChain classRef) propertyName name v w
      | None \<Rightarrow> Parent_put propertyName v w)"

subsection \<open>deleteProperty\<close>

definition class_deleteProperty ::
  "'h OpaqueJSClass \<Rightarrow> 'h JSObjectDeletePropertyCallback option" where
  "class_deleteProperty jsClass =
     (if version jsClass = 0 then deleteProperty (v0 jsClass) else None)"

definition class_deletePropertyEx ::
  "'h OpaqueJSClass \<Rightarrow> 'h JSObjectDeletePropertyCallbackEx option" where
  "class_deletePropertyEx jsClass =
     (if version jsClass = 1000 then deletePropertyEx (v1000 jsClass) else None)"

text \<open>
  Lines 447 to 450:
  \<^verbatim>\<open>if (exception) throwException(...); if (result || exception) return true;\<close>.
\<close>

definition delete_result ::
  "(bool \<times> JSValueRef) \<times> 'h world \<Rightarrow> bool option \<times> 'h world" where
  "delete_result r =
     (case r of
        ((result, None), w) \<Rightarrow> (if result then Some True else None, w)
      | ((result, Some e), w) \<Rightarrow> (Some True, throwException e w))"

text \<open>Lines 437 to 451: the class's own delete callback.\<close>

definition delete_deleteProperty ::
  "'h OpaqueJSClass \<Rightarrow> name \<Rightarrow> 'h world \<Rightarrow> bool option \<times> 'h world" where
  "delete_deleteProperty jsClass name w =
     (case class_deleteProperty jsClass of
        Some deleteProperty' \<Rightarrow>
          delete_result (invoke (Callback (ref jsClass) DeleteProperty) (deleteProperty' name) w)
      | None \<Rightarrow>
          (case class_deletePropertyEx jsClass of
             Some deletePropertyEx' \<Rightarrow>
               delete_result (invoke (Callback (ref jsClass) DeleteProperty)
                 (deletePropertyEx' (ref jsClass) name) w)
           | None \<Rightarrow> (None, w)))"

text \<open>Lines 454 to 460 and 462 to 468: a static entry of that name answers.\<close>

definition delete_staticValue :: "'h OpaqueJSClass \<Rightarrow> name \<Rightarrow> bool option" where
  "delete_staticValue jsClass name =
     (case staticValues jsClass of
        None \<Rightarrow> None
      | Some table \<Rightarrow>
          (case map_of table name of
             None \<Rightarrow> None
           | Some entry \<Rightarrow>
               if value_attributes entry AND kJSPropertyAttributeDontDelete \<noteq> 0
               then Some False else Some True))"

definition delete_staticFunction :: "'h OpaqueJSClass \<Rightarrow> name \<Rightarrow> bool option" where
  "delete_staticFunction jsClass name =
     (case staticFunctions jsClass of
        None \<Rightarrow> None
      | Some table \<Rightarrow>
          (case map_of table name of
             None \<Rightarrow> None
           | Some entry \<Rightarrow>
               if function_attributes entry AND kJSPropertyAttributeDontDelete \<noteq> 0
               then Some False else Some True))"

text \<open>The body of the loop for one class, lines 434 to 468.\<close>

definition delete_class ::
  "'h OpaqueJSClass \<Rightarrow> name \<Rightarrow> 'h world \<Rightarrow> bool option \<times> 'h world" where
  "delete_class jsClass name w =
     (case delete_deleteProperty jsClass name w of
        (Some r, w1) \<Rightarrow> (Some r, w1)
      | (None, w1) \<Rightarrow>
          (case delete_staticValue jsClass name of
             Some r \<Rightarrow> (Some r, w1)
           | None \<Rightarrow> (delete_staticFunction jsClass name, w1)))"

fun deleteProperty_loop ::
  "'h OpaqueJSClass list \<Rightarrow> PropertyName \<Rightarrow> name \<Rightarrow> 'h world \<Rightarrow> bool \<times> 'h world" where
  "deleteProperty_loop [] propertyName name w = Parent_deleteProperty propertyName w"
| "deleteProperty_loop (jsClass # chain) propertyName name w =
     (case delete_class jsClass name w of
        (Some r, w') \<Rightarrow> (r, w')
      | (None, w') \<Rightarrow> deleteProperty_loop chain propertyName name w')"

text \<open>\<^verbatim>\<open>JSCallbackObject<Parent>::deleteProperty\<close>.\<close>

definition deleteProperty_op ::
  "'h OpaqueJSClass \<Rightarrow> PropertyName \<Rightarrow> 'h world \<Rightarrow> bool \<times> 'h world" where
  "deleteProperty_op classRef propertyName w =
     (case uid propertyName of
        Some name \<Rightarrow> deleteProperty_loop (classChain classRef) propertyName name w
      | None \<Rightarrow> Parent_deleteProperty propertyName w)"

subsection \<open>getCallData and call\<close>

datatype CallType = CallType_None | CallType_Host

text \<open>The outcome of \<^verbatim>\<open>RELEASE_ASSERT_NOT_REACHED()\<close>: the process is stopped.\<close>

datatype fatal = ReleaseAssertNotReached

definition class_callAsFunction ::
  "'h OpaqueJSClass \<Rightarrow> 'h JSObjectCallAsFunctionCallback option" where
  "class_callAsFunction jsClass =
     (if version jsClass = 0 then callAsFunction (v0 jsClass) else None)"

definition class_callAsFunctionEx ::
  "'h OpaqueJSClass \<Rightarrow> 'h JSObjectCallAsFunctionCallbackEx option" where
  "class_callAsFunctionEx jsClass =
     (if version jsClass = 1000 then callAsFunctionEx (v1000 jsClass) else None)"

fun getCallData_loop :: "'h OpaqueJSClass list \<Rightarrow> CallType" where
  "getCallData_loop [] = CallType_None"
| "getCallData_loop (jsClass # chain) =
     (if (version jsClass = 0 \<and> callAsFunction (v0 jsClass) \<noteq> None)
         \<or> (version jsClass = 1000 \<and> callAsFunctionEx (v1000 jsClass) \<noteq> None)
      then CallType_Host
      else getCallData_loop chain)"

text \<open>\<^verbatim>\<open>JSCallbackObject<Parent>::getCallData\<close>: it reads the classes only.\<close>

definition getCallData :: "'h OpaqueJSClass \<Rightarrow> CallType" where
  "getCallData classRef = getCallData_loop (classChain classRef)"

text \<open>
  Lines 596 to 605: the callback's result is returned whether or not it left an
  exception; the exception, if any, is thrown first.
\<close>

definition call_result ::
  "(JSValueRef \<times> JSValueRef) \<times> 'h world \<Rightarrow> JSValueRef \<times> 'h world" where
  "call_result r =
     (case r of
        ((result, None), w) \<Rightarrow> (result, w)
      | ((result, Some e), w) \<Rightarrow> (result, throwException e w))"

fun call_loop ::
  "'h OpaqueJSClass list \<Rightarrow> jsvalue \<Rightarrow> jsvalue list \<Rightarrow> 'h world
     \<Rightarrow> fatal + (JSValueRef \<times> 'h world)" where
  "call_loop [] thisObj arguments w = Inl ReleaseAssertNotReached"
| "call_loop (jsClass # chain) thisObj arguments w =
     (case class_callAsFunction jsClass of
        Some callAsFunction' \<Rightarrow>
          Inr (call_result (invoke (Callback (ref jsClass) CallAsFunction)
                 (callAsFunction' thisObj arguments) w))
      | None \<Rightarrow>
          (case class_callAsFunctionEx jsClass of
             Some callAsFunctionEx' \<Rightarrow>
               Inr (call_result (invoke (Callback (ref jsClass) CallAsFunction)
                      (callAsFunctionEx' (ref jsClass) thisObj arguments) w))
           | None \<Rightarrow> call_loop chain thisObj arguments w))"

text \<open>
  \<^verbatim>\<open>JSCallbackObject<Parent>::call\<close> on a callee of class \<open>classRef\<close>. The result is
  the handle the callback returned.
\<close>

definition call ::
  "'h OpaqueJSClass \<Rightarrow> jsvalue \<Rightarrow> jsvalue list \<Rightarrow> 'h world
     \<Rightarrow> fatal + (JSValueRef \<times> 'h world)" where
  "call classRef thisObj arguments w = call_loop (classChain classRef) thisObj arguments w"

subsection \<open>init and the destructor\<close>

text \<open>Lines 137 to 142: the initialize callback of one class, if it has one.\<close>

definition init_class :: "'h OpaqueJSClass \<Rightarrow> 'h world \<Rightarrow> 'h world" where
  "init_class clazz w =
     (case (if version clazz = 0 then initialize (v0 clazz) else None) of
        Some initialize' \<Rightarrow>
          snd (invoke (Callback (ref clazz) Initialize) (\<lambda>h. ((), initialize' h)) w)
      | None \<Rightarrow>
          (case (if version clazz = 1000 then initializeEx (v1000 clazz) else None) of
             Some initializeEx' \<Rightarrow>
               snd (invoke (Callback (ref clazz) Initialize)
                      (\<lambda>h. ((), initializeEx' (ref clazz) h)) w)
           | None \<Rightarrow> w))"

text \<open>
  The loop \<^verbatim>\<open>for (int i = size - 1; i >= 0; i--)\<close> over \<^verbatim>\<open>initRoutines[i]\<close>. The
  counter of \<open>init_loop\<close> is \<open>i + 1\<close>: at \<open>Suc i\<close> the body runs on index \<open>i\<close>, at
  \<open>0\<close> the loop has ended.
\<close>

fun init_loop :: "'h OpaqueJSClass list \<Rightarrow> nat \<Rightarrow> 'h world \<Rightarrow> 'h world" where
  "init_loop initRoutines 0 w = w"
| "init_loop initRoutines (Suc i) w =
     init_loop initRoutines i (init_class (initRoutines ! i) w)"

text \<open>
  \<^verbatim>\<open>JSCallbackObject<Parent>::init\<close>: \<open>initRoutines\<close> is filled by the do-while loop,
  from the instance's class to the root.
\<close>

definition init :: "'h OpaqueJSClass \<Rightarrow> 'h world \<Rightarrow> 'h world" where
  "init classRef w =
     (let initRoutines = classChain classRef
      in init_loop initRoutines (length initRoutines) w)"

text \<open>Lines 91 to 96: the finalize callback of one class, if it has one.\<close>

definition finalize_class :: "'h OpaqueJSClass \<Rightarrow> 'h world \<Rightarrow> 'h world" where
  "finalize_class jsClass w =
     (case (if version jsClass = 0 then finalize (v0 jsClass) else None) of
        Some finalize' \<Rightarrow>
          snd (invoke (Callback (ref jsClass) Finalize) (\<lambda>h. ((), finalize' h)) w)
      | None \<Rightarrow>
          (case (if version jsClass = 1000 then finalizeEx (v1000 jsClass) else None) of
             Some finalizeEx' \<Rightarrow>
               snd (invoke (Callback (ref jsClass) Finalize)
                      (\<lambda>h. ((), finalizeEx' (ref jsClass) h)) w)
           | None \<Rightarrow> w))"

fun destructor_loop :: "'h OpaqueJSClass list \<Rightarrow> 'h world \<Rightarrow> 'h world" where
  "destructor_loop [] w = w"
| "destructor_loop (jsClass # chain) w = destructor_loop chain (finalize_class jsClass w)"

text \<open>\<^verbatim>\<open>JSCallbackObject<Parent>::~JSCallbackObject\<close>.\<close>

definition destructor :: "'h OpaqueJSClass \<Rightarrow> 'h world \<Rightarrow> 'h world" where
  "destructor classRef w = destructor_loop (classChain classRef) w"

subsection \<open>getOwnPropertySlot and the getters\<close>

text \<open>
  The two getter functions a custom slot can hold, and the slot that
  \<^verbatim>\<open>getOwnPropertySlot\<close> fills: \<^verbatim>\<open>slot.setValue(_, attributes, value)\<close> or
  \<^verbatim>\<open>slot.setCustom(_, attributes, getter)\<close>.
\<close>

datatype getter = callbackGetter_function | staticFunctionGetter_function

datatype PropertySlot =
    SlotValue JSPropertyAttributes jsvalue
  | SlotCustom JSPropertyAttributes getter

definition class_hasProperty ::
  "'h OpaqueJSClass \<Rightarrow> 'h JSObjectHasPropertyCallback option" where
  "class_hasProperty jsClass =
     (if version jsClass = 0 then hasProperty (v0 jsClass) else None)"

definition class_hasPropertyEx ::
  "'h OpaqueJSClass \<Rightarrow> 'h JSObjectHasPropertyCallbackEx option" where
  "class_hasPropertyEx jsClass =
     (if version jsClass = 1000 then hasPropertyEx (v1000 jsClass) else None)"

definition class_getProperty ::
  "'h OpaqueJSClass \<Rightarrow> 'h JSObjectGetPropertyCallback option" where
  "class_getProperty jsClass =
     (if version jsClass = 0 then getProperty (v0 jsClass) else None)"

definition class_getPropertyEx ::
  "'h OpaqueJSClass \<Rightarrow> 'h JSObjectGetPropertyCallbackEx option" where
  "class_getPropertyEx jsClass =
     (if version jsClass = 1000 then getPropertyEx (v1000 jsClass) else None)"

text \<open>
  What follows a get callback in \<^verbatim>\<open>getStaticValue\<close> and \<^verbatim>\<open>callbackGetter\<close>: an
  exception is thrown and undefined returned; else a non-null value is returned; else
  the walk goes on (\<open>None\<close>).
\<close>

definition get_result ::
  "(JSValueRef \<times> JSValueRef) \<times> 'h world \<Rightarrow> jsvalue option \<times> 'h world" where
  "get_result r =
     (case r of
        ((v, Some e), w) \<Rightarrow> (Some JSUndefined, throwException e w)
      | ((Some v, None), w) \<Rightarrow> (Some v, w)
      | ((None, None), w) \<Rightarrow> (None, w))"

text \<open>
  \<^verbatim>\<open>JSCallbackObject<Parent>::getStaticValue\<close>: the result \<open>None\<close> is the empty
  \<^verbatim>\<open>JSValue()\<close>.
\<close>

definition getStaticValue_entry ::
  "'h OpaqueJSClass \<Rightarrow> name \<Rightarrow> 'h world \<Rightarrow> jsvalue option \<times> 'h world" where
  "getStaticValue_entry jsClass name w =
     (case staticValues jsClass of
        None \<Rightarrow> (None, w)
      | Some table \<Rightarrow>
          (case map_of table name of
             None \<Rightarrow> (None, w)
           | Some entry \<Rightarrow>
               (case (if value_version entry = 0 then value_v0_getProperty entry else None) of
                  Some getProperty' \<Rightarrow>
                    get_result (invoke (Callback (ref jsClass) StaticValueGet)
                      (getProperty' name) w)
                | None \<Rightarrow>
                    (case (if value_version entry = 1000
                           then value_v1000_getPropertyEx entry else None) of
                       Some getPropertyEx' \<Rightarrow>
                         get_result (invoke (Callback (ref jsClass) StaticValueGet)
                           (getPropertyEx' (ref jsClass) name) w)
                     | None \<Rightarrow> (None, w)))))"

fun getStaticValue_loop ::
  "'h OpaqueJSClass list \<Rightarrow> name \<Rightarrow> 'h world \<Rightarrow> jsvalue option \<times> 'h world" where
  "getStaticValue_loop [] name w = (None, w)"
| "getStaticValue_loop (jsClass # chain) name w =
     (case getStaticValue_entry jsClass name w of
        (Some v, w1) \<Rightarrow> (Some v, w1)
      | (None, w1) \<Rightarrow> getStaticValue_loop chain name w1)"

definition getStaticValue ::
  "'h OpaqueJSClass \<Rightarrow> PropertyName \<Rightarrow> 'h world \<Rightarrow> jsvalue option \<times> 'h world" where
  "getStaticValue classRef propertyName w =
     (case uid propertyName of
        Some name \<Rightarrow> getStaticValue_loop (classChain classRef) name w
      | None \<Rightarrow> (None, w))"

text \<open>
  Lines 188 to 220 of \<^verbatim>\<open>getOwnPropertySlot\<close>: the class's hasProperty callback, or
  else (only when the class has no hasProperty callback) its getProperty callback.
  \<open>Some slot\<close> is \<^verbatim>\<open>return true\<close> with the slot filled.
\<close>

definition slot_callbacks ::
  "'h OpaqueJSClass \<Rightarrow> name \<Rightarrow> 'h world \<Rightarrow> PropertySlot option \<times> 'h world" where
  "slot_callbacks jsClass name w =
     (let attributes = kJSPropertyAttributeReadOnly OR kJSPropertyAttributeDontEnum;
          has = (\<lambda>r. case r of
                   (doesHaveProperty, w1) \<Rightarrow>
                     (if doesHaveProperty
                      then Some (SlotCustom attributes callbackGetter_function) else None, w1));
          got = (\<lambda>r. case get_result r of
                   (Some v, w1) \<Rightarrow> (Some (SlotValue attributes v), w1)
                 | (None, w1) \<Rightarrow> (None, w1))
      in case class_hasProperty jsClass of
           Some hasProperty' \<Rightarrow>
             has (invoke (Callback (ref jsClass) HasProperty) (hasProperty' name) w)
         | None \<Rightarrow>
             (case class_hasPropertyEx jsClass of
                Some hasPropertyEx' \<Rightarrow>
                  has (invoke (Callback (ref jsClass) HasProperty)
                         (hasPropertyEx' (ref jsClass) name) w)
              | None \<Rightarrow>
                  (case class_getProperty jsClass of
                     Some getProperty' \<Rightarrow>
                       got (invoke (Callback (ref jsClass) GetProperty) (getProperty' name) w)
                   | None \<Rightarrow>
                       (case class_getPropertyEx jsClass of
                          Some getPropertyEx' \<Rightarrow>
                            got (invoke (Callback (ref jsClass) GetProperty)
                                   (getPropertyEx' (ref jsClass) name) w)
                        | None \<Rightarrow> (None, w)))))"

text \<open>
  Lines 223 to 231: a static value of that name in this class; its value comes from
  \<^verbatim>\<open>thisObject->getStaticValue\<close>, which walks the chain from the instance's class.
\<close>

definition slot_staticValue ::
  "'h OpaqueJSClass \<Rightarrow> 'h OpaqueJSClass \<Rightarrow> PropertyName \<Rightarrow> name \<Rightarrow> 'h world
     \<Rightarrow> PropertySlot option \<times> 'h world" where
  "slot_staticValue classRef jsClass propertyName name w =
     (case staticValues jsClass of
        None \<Rightarrow> (None, w)
      | Some table \<Rightarrow>
          (case map_of table name of
             None \<Rightarrow> (None, w)
           | Some entry \<Rightarrow>
               (case getStaticValue classRef propertyName w of
                  (Some v, w1) \<Rightarrow>
                    (Some (SlotValue
                       (kJSPropertyAttributeReadOnly OR kJSPropertyAttributeDontEnum) v), w1)
                | (None, w1) \<Rightarrow> (None, w1))))"

text \<open>Lines 233 to 238: a static function of that name in this class.\<close>

definition slot_staticFunction :: "'h OpaqueJSClass \<Rightarrow> name \<Rightarrow> PropertySlot option" where
  "slot_staticFunction jsClass name =
     (case staticFunctions jsClass of
        None \<Rightarrow> None
      | Some table \<Rightarrow>
          (case map_of table name of
             None \<Rightarrow> None
           | Some entry \<Rightarrow>
               Some (SlotCustom (kJSPropertyAttributeReadOnly OR kJSPropertyAttributeDontEnum)
                 staticFunctionGetter_function)))"

text \<open>
  Modelled from the spec: the slot that the generic object's own resolution
  (\<^verbatim>\<open>Parent::getOwnPropertySlot\<close>) fills for an own data property.
\<close>

definition Parent_slot :: "PropertyName \<Rightarrow> 'h world \<Rightarrow> PropertySlot option" where
  "Parent_slot propertyName w =
     (case map_of (properties w) propertyName of
        Some (v, attributes) \<Rightarrow> Some (SlotValue attributes v)
      | None \<Rightarrow> None)"

text \<open>
  The body of the loop for one class, lines 181 to 238; \<open>classRef\<close> is the class of the
  instance, which getStaticValue starts from.
\<close>

definition slot_class ::
  "'h OpaqueJSClass \<Rightarrow> 'h OpaqueJSClass \<Rightarrow> PropertyName \<Rightarrow> name \<Rightarrow> 'h world
     \<Rightarrow> PropertySlot option \<times> 'h world" where
  "slot_class classRef jsClass propertyName name w =
     (case slot_callbacks jsClass name w of
        (Some slot, w1) \<Rightarrow> (Some slot, w1)
      | (None, w1) \<Rightarrow>
          (case slot_staticValue classRef jsClass propertyName name w1 of
             (Some slot, w2) \<Rightarrow> (Some slot, w2)
           | (None, w2) \<Rightarrow> (slot_staticFunction jsClass name, w2)))"

fun getOwnPropertySlot_loop ::
  "'h OpaqueJSClass \<Rightarrow> 'h OpaqueJSClass list \<Rightarrow> PropertyName \<Rightarrow> name \<Rightarrow> 'h world
     \<Rightarrow> PropertySlot option \<times> 'h world" where
  "getOwnPropertySlot_loop classRef [] propertyName name w = (Parent_slot propertyName w, w)"
| "getOwnPropertySlot_loop classRef (jsClass # chain) propertyName name w =
     (case slot_class classRef jsClass propertyName name w of
        (Some slot, w') \<Rightarrow> (Some slot, w')
      | (None, w') \<Rightarrow> getOwnPropertySlot_loop classRef chain propertyName name w')"

text \<open>
  \<^verbatim>\<open>JSCallbackObject<Parent>::getOwnPropertySlot\<close>: \<open>None\<close> is \<^verbatim>\<open>return false\<close>.
\<close>

definition getOwnPropertySlot ::
  "'h OpaqueJSClass \<Rightarrow> PropertyName \<Rightarrow> 'h world \<Rightarrow> PropertySlot option \<times> 'h world" where
  "getOwnPropertySlot classRef propertyName w =
     (case uid propertyName of
        Some name \<Rightarrow>
          getOwnPropertySlot_loop classRef (classChain classRef) propertyName name w
      | None \<Rightarrow> (Parent_slot propertyName w, w))"

text \<open>Lines 771 to 790 of \<^verbatim>\<open>callbackGetter\<close>: the class's getProperty callback.\<close>

definition callbackGetter_class ::
  "'h OpaqueJSClass \<Rightarrow> name \<Rightarrow> 'h world \<Rightarrow> jsvalue option \<times> 'h world" where
  "callbackGetter_class jsClass name w =
     (case class_getProperty jsClass of
        Some getProperty' \<Rightarrow>
          get_result (invoke (Callback (ref jsClass) GetProperty) (getProperty' name) w)
      | None \<Rightarrow>
          (case class_getPropertyEx jsClass of
             Some getPropertyEx' \<Rightarrow>
               get_result (invoke (Callback (ref jsClass) GetProperty)
                 (getPropertyEx' (ref jsClass) name) w)
           | None \<Rightarrow> (None, w)))"

fun callbackGetter_loop ::
  "'h OpaqueJSClass list \<Rightarrow> name \<Rightarrow> 'h world \<Rightarrow> jsvalue option \<times> 'h world" where
  "callbackGetter_loop [] name w = (None, w)"
| "callbackGetter_loop (jsClass # chain) name w =
     (case callbackGetter_class jsClass name w of
        (Some v, w1) \<Rightarrow> (Some v, w1)
      | (None, w1) \<Rightarrow> callbackGetter_loop chain name w1)"

text \<open>
  \<^verbatim>\<open>JSCallbackObject<Parent>::callbackGetter\<close>. When no callback answers, the
  reference error is thrown and is the value returned.
\<close>

definition callbackGetter ::
  "'h OpaqueJSClass \<Rightarrow> PropertyName \<Rightarrow> 'h world \<Rightarrow> jsvalue \<times> 'h world" where
  "callbackGetter classRef propertyName w =
     (let error =
            ReferenceError ''hasProperty callback returned true for a property that doesn't exist.''
      in case uid propertyName of
           None \<Rightarrow> (error, throwException error w)
         | Some name \<Rightarrow>
             (case callbackGetter_loop (classChain classRef) name w of
                (Some v, w1) \<Rightarrow> (v, w1)
              | (None, w1) \<Rightarrow> (error, throwException error w1)))"

text \<open>
  \<^verbatim>\<open>JSCallbackFunction::create\<close> followed by \<^verbatim>\<open>putDirect\<close> with the entry's
  attributes (lines 741 to 743 and 746 to 748). Modelled from the spec: the creation
  (\<^verbatim>\<open>JSCallbackFunction\<close> is not among the sources) builds a callable object bound to
  the callback and name; here the new object takes the next free cell.
\<close>

definition materialize ::
  "'h JSCallbackFunction \<Rightarrow> PropertyName \<Rightarrow> JSPropertyAttributes \<Rightarrow> 'h world
     \<Rightarrow> jsvalue \<times> 'h world" where
  "materialize function propertyName attributes w =
     (let o' = JSCell (allocated w);
          w1 = w\<lparr>cells := (cells w)(allocated w := Some function),
                 allocated := Suc (allocated w)\<rparr>
      in (o', snd (putDirect propertyName o' attributes w1)))"

fun staticFunctionGetter_loop ::
  "'h OpaqueJSClass list \<Rightarrow> PropertyName \<Rightarrow> name \<Rightarrow> 'h world
     \<Rightarrow> (jsvalue \<times> 'h world) option" where
  "staticFunctionGetter_loop [] propertyName name w = None"
| "staticFunctionGetter_loop (jsClass # chain) propertyName name w =
     (case staticFunctions jsClass of
        None \<Rightarrow> staticFunctionGetter_loop chain propertyName name w
      | Some table \<Rightarrow>
          (case map_of table name of
             None \<Rightarrow> staticFunctionGetter_loop chain propertyName name w
           | Some entry \<Rightarrow>
               (case (if function_version entry = 0
                      then function_v0_callAsFunction entry else None) of
                  Some callAsFunction' \<Rightarrow>
                    Some (materialize (CallbackFunction callAsFunction' name)
                            propertyName (function_attributes entry) w)
                | None \<Rightarrow>
                    (case (if function_version entry = 1000
                           then function_v1000_callAsFunctionEx entry else None) of
                       Some callAsFunctionEx' \<Rightarrow>
                         Some (materialize
                                 (CallbackFunctionEx (ref jsClass) callAsFunctionEx' name)
                                 propertyName (function_attributes entry) w)
                     | None \<Rightarrow> staticFunctionGetter_loop chain propertyName name w))))"

text \<open>\<^verbatim>\<open>JSCallbackObject<Parent>::staticFunctionGetter\<close>.\<close>

definition staticFunctionGetter ::
  "'h OpaqueJSClass \<Rightarrow> PropertyName \<Rightarrow> 'h world \<Rightarrow> jsvalue \<times> 'h world" where
  "staticFunctionGetter classRef propertyName w =
     (let error =
            ReferenceError ''Static function property defined with NULL callAsFunction callback.''
      in case Parent_getOwnPropertySlot propertyName w of
           Some v \<Rightarrow> (v, w)
         | None \<Rightarrow>
             (case uid propertyName of
                None \<Rightarrow> (error, throwException error w)
              | Some name \<Rightarrow>
                  (case staticFunctionGetter_loop (classChain classRef) propertyName name w of
                     Some r \<Rightarrow> r
                   | None \<Rightarrow> (error, throwException error w))))"

text \<open>
  Modelled from the spec: reading a property. The engine's generic read is not among
  the sources; the spec has the value of a custom slot computed when the slot is read,
  by the getter the slot holds. \<open>None\<close> is the spec's notFound.
\<close>

definition get_op ::
  "'h OpaqueJSClass \<Rightarrow> PropertyName \<Rightarrow> 'h world \<Rightarrow> jsvalue option \<times> 'h world" where
  "get_op classRef propertyName w =
     (case getOwnPropertySlot classRef propertyName w of
        (None, w1) \<Rightarrow> (None, w1)
      | (Some (SlotValue attributes v), w1) \<Rightarrow> (Some v, w1)
      | (Some (SlotCustom attributes callbackGetter_function), w1) \<Rightarrow>
          (case callbackGetter classRef propertyName w1 of (v, w2) \<Rightarrow> (Some v, w2))
      | (Some (SlotCustom attributes staticFunctionGetter_function), w1) \<Rightarrow>
          (case staticFunctionGetter classRef propertyName w1 of (v, w2) \<Rightarrow> (Some v, w2)))"

subsection \<open>getOwnNonIndexPropertyNames\<close>

text \<open>
  Modelled from the spec: the output set of an enumeration
  (\<^verbatim>\<open>PropertyNameArray\<close>, not among the sources). \<^verbatim>\<open>add\<close> keeps the order of
  arrival and takes a name once; \<open>addNames\<close> adds several, in order.
\<close>

definition add :: "name list \<Rightarrow> name \<Rightarrow> name list" where
  "add propertyNames n = (if n \<in> set propertyNames then propertyNames else propertyNames @ [n])"

definition addNames :: "name list \<Rightarrow> name list \<Rightarrow> name list" where
  "addNames propertyNames ns = foldl add propertyNames ns"

record EnumerationMode =
  includeDontEnumProperties :: bool

text \<open>
  Lines 621 to 628: the class's getPropertyNames callback adds names to the array it
  is handed; the callback's result here is the names it adds, in order.
\<close>

definition names_callback ::
  "'h OpaqueJSClass \<Rightarrow> name list \<Rightarrow> 'h world \<Rightarrow> name list \<times> 'h world" where
  "names_callback jsClass propertyNames w =
     (case (if version jsClass = 0 then getPropertyNames (v0 jsClass) else None) of
        Some getPropertyNames' \<Rightarrow>
          (case invoke (Callback (ref jsClass) GetPropertyNames) getPropertyNames' w of
             (ns, w1) \<Rightarrow> (addNames propertyNames ns, w1))
      | None \<Rightarrow>
          (case (if version jsClass = 1000 then getPropertyNamesEx (v1000 jsClass) else None) of
             Some getPropertyNamesEx' \<Rightarrow>
               (case invoke (Callback (ref jsClass) GetPropertyNames)
                       (getPropertyNamesEx' (ref jsClass)) w of
                  (ns, w1) \<Rightarrow> (addNames propertyNames ns, w1))
           | None \<Rightarrow> (propertyNames, w)))"

text \<open>Lines 630 to 643: the iteration over the static values.\<close>

fun names_staticValues ::
  "'h OpaqueJSClassStaticValuesTable \<Rightarrow> EnumerationMode \<Rightarrow> name list \<Rightarrow> name list" where
  "names_staticValues [] mode propertyNames = propertyNames"
| "names_staticValues ((name, entry) # table) mode propertyNames =
     names_staticValues table mode
       (if ((value_version entry = 0 \<and> value_v0_getProperty entry \<noteq> None)
            \<or> (value_version entry = 1000 \<and> value_v1000_getPropertyEx entry \<noteq> None))
           \<and> (\<not> (value_attributes entry AND kJSPropertyAttributeDontEnum \<noteq> 0)
                \<or> includeDontEnumProperties mode)
        then add propertyNames name else propertyNames)"

text \<open>Lines 645 to 657: the iteration over the static functions.\<close>

fun names_staticFunctions ::
  "'h OpaqueJSClassStaticFunctionsTable \<Rightarrow> EnumerationMode \<Rightarrow> name list \<Rightarrow> name list" where
  "names_staticFunctions [] mode propertyNames = propertyNames"
| "names_staticFunctions ((name, entry) # table) mode propertyNames =
     names_staticFunctions table mode
       (if \<not> (function_attributes entry AND kJSPropertyAttributeDontEnum \<noteq> 0)
           \<or> includeDontEnumProperties mode
        then add propertyNames name else propertyNames)"

text \<open>
  Modelled from the spec: the generic object's own enumeration
  (\<^verbatim>\<open>Parent::getOwnNonIndexPropertyNames\<close>), adding the names of the own properties
  that are not DontEnum, or of all when the mode asks for them.
\<close>

fun Parent_getOwnNonIndexPropertyNames ::
  "(PropertyName \<times> jsvalue \<times> JSPropertyAttributes) list \<Rightarrow> EnumerationMode \<Rightarrow> name list
     \<Rightarrow> name list" where
  "Parent_getOwnNonIndexPropertyNames [] mode propertyNames = propertyNames"
| "Parent_getOwnNonIndexPropertyNames ((propertyName, v, attributes) # ps) mode propertyNames =
     Parent_getOwnNonIndexPropertyNames ps mode
       (case uid propertyName of
          Some n \<Rightarrow>
            if \<not> (attributes AND kJSPropertyAttributeDontEnum \<noteq> 0)
               \<or> includeDontEnumProperties mode
            then add propertyNames n else propertyNames
        | None \<Rightarrow> propertyNames)"

fun getOwnNonIndexPropertyNames_loop ::
  "'h OpaqueJSClass list \<Rightarrow> EnumerationMode \<Rightarrow> name list \<Rightarrow> 'h world
     \<Rightarrow> name list \<times> 'h world" where
  "getOwnNonIndexPropertyNames_loop [] mode propertyNames w =
     (Parent_getOwnNonIndexPropertyNames (properties w) mode propertyNames, w)"
| "getOwnNonIndexPropertyNames_loop (jsClass # chain) mode propertyNames w =
     (case names_callback jsClass propertyNames w of
        (names1, w1) \<Rightarrow>
          (let names2 = (case staticValues jsClass of
                           Some table \<Rightarrow> names_staticValues table mode names1
                         | None \<Rightarrow> names1);
               names3 = (case staticFunctions jsClass of
                           Some table \<Rightarrow> names_staticFunctions table mode names2
                         | None \<Rightarrow> names2)
           in getOwnNonIndexPropertyNames_loop chain mode names3 w1))"

text \<open>
  \<^verbatim>\<open>JSCallbackObject<Parent>::getOwnNonIndexPropertyNames\<close>: \<open>propertyNames\<close> is the
  array the caller hands in, and the result is the array afterwards.
\<close>

definition getOwnNonIndexPropertyNames ::
  "'h OpaqueJSClass \<Rightarrow> EnumerationMode \<Rightarrow> name list \<Rightarrow> 'h world \<Rightarrow> name list \<times> 'h world" where
  "getOwnNonIndexPropertyNames classRef mode propertyNames w =
     getOwnNonIndexPropertyNames_loop (classChain classRef) mode propertyNames w"

section \<open>Notions the statements use\<close>

text \<open>The entry of a name in the static tables of one class.\<close>

definition staticValueEntry :: "'h OpaqueJSClass \<Rightarrow> name \<Rightarrow> 'h StaticValueEntry option" where
  "staticValueEntry jsClass name =
     (case staticValues jsClass of None \<Rightarrow> None | Some table \<Rightarrow> map_of table name)"

definition staticFunctionEntry :: "'h OpaqueJSClass \<Rightarrow> name \<Rightarrow> 'h StaticFunctionEntry option" where
  "staticFunctionEntry jsClass name =
     (case staticFunctions jsClass of None \<Rightarrow> None | Some table \<Rightarrow> map_of table name)"

text \<open>
  The callback a class defines for its generation: the version 0 callback of a
  version 0 class, the version 1000 callback of a version 1000 class (handed the class
  it belongs to), and none otherwise.
\<close>

definition hasPropertyCallback :: "'h OpaqueJSClass \<Rightarrow> 'h JSObjectHasPropertyCallback option" where
  "hasPropertyCallback jsClass =
     (if version jsClass = 0 then hasProperty (v0 jsClass)
      else if version jsClass = 1000
      then map_option (\<lambda>callback. callback (ref jsClass)) (hasPropertyEx (v1000 jsClass))
      else None)"

definition getPropertyCallback :: "'h OpaqueJSClass \<Rightarrow> 'h JSObjectGetPropertyCallback option" where
  "getPropertyCallback jsClass =
     (if version jsClass = 0 then getProperty (v0 jsClass)
      else if version jsClass = 1000
      then map_option (\<lambda>callback. callback (ref jsClass)) (getPropertyEx (v1000 jsClass))
      else None)"

definition setPropertyCallback :: "'h OpaqueJSClass \<Rightarrow> 'h JSObjectSetPropertyCallback option" where
  "setPropertyCallback jsClass =
     (if version jsClass = 0 then setProperty (v0 jsClass)
      else if version jsClass = 1000
      then map_option (\<lambda>callback. callback (ref jsClass)) (setPropertyEx (v1000 jsClass))
      else None)"

definition deletePropertyCallback ::
  "'h OpaqueJSClass \<Rightarrow> 'h JSObjectDeletePropertyCallback option" where
  "deletePropertyCallback jsClass =
     (if version jsClass = 0 then deleteProperty (v0 jsClass)
      else if version jsClass = 1000
      then map_option (\<lambda>callback. callback (ref jsClass)) (deletePropertyEx (v1000 jsClass))
      else None)"

definition getPropertyNamesCallback ::
  "'h OpaqueJSClass \<Rightarrow> 'h JSObjectGetPropertyNamesCallback option" where
  "getPropertyNamesCallback jsClass =
     (if version jsClass = 0 then getPropertyNames (v0 jsClass)
      else if version jsClass = 1000
      then map_option (\<lambda>callback. callback (ref jsClass)) (getPropertyNamesEx (v1000 jsClass))
      else None)"

definition callAsFunctionCallback ::
  "'h OpaqueJSClass \<Rightarrow> 'h JSObjectCallAsFunctionCallback option" where
  "callAsFunctionCallback jsClass =
     (if version jsClass = 0 then callAsFunction (v0 jsClass)
      else if version jsClass = 1000
      then map_option (\<lambda>callback. callback (ref jsClass)) (callAsFunctionEx (v1000 jsClass))
      else None)"

definition initializeCallback :: "'h OpaqueJSClass \<Rightarrow> 'h JSObjectInitializeCallback option" where
  "initializeCallback jsClass =
     (if version jsClass = 0 then initialize (v0 jsClass)
      else if version jsClass = 1000
      then map_option (\<lambda>callback. callback (ref jsClass)) (initializeEx (v1000 jsClass))
      else None)"

definition finalizeCallback :: "'h OpaqueJSClass \<Rightarrow> 'h JSObjectFinalizeCallback option" where
  "finalizeCallback jsClass =
     (if version jsClass = 0 then finalize (v0 jsClass)
      else if version jsClass = 1000
      then map_option (\<lambda>callback. callback (ref jsClass)) (finalizeEx (v1000 jsClass))
      else None)"

text \<open>
  The walk of an operation passes the classes of a list when the loop body returns for
  none of them; the result is the state after the last of them. These are the classes
  that do not handle the operation: a class without a callback of that kind and without
  a static entry of the name, or one whose callback declines.
\<close>

fun put_passes ::
  "'h OpaqueJSClass list \<Rightarrow> PropertyName \<Rightarrow> name \<Rightarrow> jsvalue \<Rightarrow> 'h world
     \<Rightarrow> 'h world option" where
  "put_passes [] propertyName name v w = Some w"
| "put_passes (jsClass # chain) propertyName name v w =
     (case put_class jsClass propertyName name v w of
        (Some r, w') \<Rightarrow> None
      | (None, w') \<Rightarrow> put_passes chain propertyName name v w')"

fun delete_passes :: "'h OpaqueJSClass list \<Rightarrow> name \<Rightarrow> 'h world \<Rightarrow> 'h world option" where
  "delete_passes [] name w = Some w"
| "delete_passes (jsClass # chain) name w =
     (case delete_class jsClass name w of
        (Some r, w') \<Rightarrow> None
      | (None, w') \<Rightarrow> delete_passes chain name w')"

fun slot_passes ::
  "'h OpaqueJSClass \<Rightarrow> 'h OpaqueJSClass list \<Rightarrow> PropertyName \<Rightarrow> name \<Rightarrow> 'h world
     \<Rightarrow> 'h world option" where
  "slot_passes classRef [] propertyName name w = Some w"
| "slot_passes classRef (jsClass # chain) propertyName name w =
     (case slot_class classRef jsClass propertyName name w of
        (Some slot, w') \<Rightarrow> None
      | (None, w') \<Rightarrow> slot_passes classRef chain propertyName name w')"

text \<open>
  The attributes of the static entry that answers a delete in one class: the static
  value of that name, or else the static function of that name.
\<close>

definition staticEntryAttributes :: "'h OpaqueJSClass \<Rightarrow> name \<Rightarrow> JSPropertyAttributes option" where
  "staticEntryAttributes jsClass name =
     (case staticValueEntry jsClass name of
        Some entry \<Rightarrow> Some (value_attributes entry)
      | None \<Rightarrow> map_option function_attributes (staticFunctionEntry jsClass name))"

text \<open>
  The function object a static function entry stands for: bound to the entry's
  callback of the entry's own generation and to the name; none when that callback is
  null.
\<close>

definition staticFunctionObject ::
  "'h OpaqueJSClass \<Rightarrow> name \<Rightarrow> 'h StaticFunctionEntry \<Rightarrow> 'h JSCallbackFunction option" where
  "staticFunctionObject jsClass name entry =
     (if function_version entry = 0
      then map_option (\<lambda>callback. CallbackFunction callback name)
             (function_v0_callAsFunction entry)
      else if function_version entry = 1000
      then map_option (\<lambda>callback. CallbackFunctionEx (ref jsClass) callback name)
             (function_v1000_callAsFunctionEx entry)
      else None)"

text \<open>
  Enumeration: a static value is listed when it has a getter for its generation, a
  static function always, and either only when it is not DontEnum or the mode asks for
  those too.
\<close>

definition listed :: "JSPropertyAttributes \<Rightarrow> EnumerationMode \<Rightarrow> bool" where
  "listed attributes mode \<longleftrightarrow>
     attributes AND kJSPropertyAttributeDontEnum = 0 \<or> includeDontEnumProperties mode"

definition readable :: "'h StaticValueEntry \<Rightarrow> bool" where
  "readable entry \<longleftrightarrow>
     (if value_version entry = 0 then value_v0_getProperty entry \<noteq> None
      else if value_version entry = 1000 then value_v1000_getPropertyEx entry \<noteq> None
      else False)"

definition staticValueNames :: "'h OpaqueJSClass \<Rightarrow> EnumerationMode \<Rightarrow> name list" where
  "staticValueNames jsClass mode =
     (case staticValues jsClass of
        None \<Rightarrow> []
      | Some table \<Rightarrow>
          map fst (filter (\<lambda>(n, entry). readable entry \<and> listed (value_attributes entry) mode)
            table))"

definition staticFunctionNames :: "'h OpaqueJSClass \<Rightarrow> EnumerationMode \<Rightarrow> name list" where
  "staticFunctionNames jsClass mode =
     (case staticFunctions jsClass of
        None \<Rightarrow> []
      | Some table \<Rightarrow>
          map fst (filter (\<lambda>(n, entry). listed (function_attributes entry) mode) table))"

text \<open>
  The names offered along the chain, in chain order and before duplicates are dropped:
  for each class the names its getPropertyNames callback adds, then its static value
  names, then its static function names. The callbacks run in this order, each on the
  host state the one before left.
\<close>

fun offeredNames :: "'h OpaqueJSClass list \<Rightarrow> EnumerationMode \<Rightarrow> 'h \<Rightarrow> name list" where
  "offeredNames [] mode h = []"
| "offeredNames (jsClass # chain) mode h =
     (case getPropertyNamesCallback jsClass of
        Some callback \<Rightarrow>
          fst (callback h) @ staticValueNames jsClass mode @ staticFunctionNames jsClass mode
            @ offeredNames chain mode (snd (callback h))
      | None \<Rightarrow>
          staticValueNames jsClass mode @ staticFunctionNames jsClass mode
            @ offeredNames chain mode h)"

text \<open>The names the generic object offers: its own properties with a name, if listed.\<close>

definition ownNames ::
  "(PropertyName \<times> jsvalue \<times> JSPropertyAttributes) list \<Rightarrow> EnumerationMode \<Rightarrow> name list" where
  "ownNames ps mode =
     concat (map (\<lambda>(propertyName, v, attributes).
       case uid propertyName of
         Some n \<Rightarrow> if listed attributes mode then [n] else []
       | None \<Rightarrow> []) ps)"

text \<open>A list with every element kept at its first place only.\<close>

definition firstOccurrences :: "'a list \<Rightarrow> 'a list" where
  "firstOccurrences xs = rev (remdups (rev xs))"

section \<open>Example classes\<close>

text \<open>
  Classes and callbacks on which the theorems below are run. The host state of the
  examples is a list of notes that the callbacks append to.
\<close>

definition noCallbacks_v0 :: "'h ClassCallbacks_v0" where
  "noCallbacks_v0 = \<lparr>initialize = None, finalize = None, hasProperty = None, getProperty = None,
     setProperty = None, deleteProperty = None, getPropertyNames = None, callAsFunction = None\<rparr>"

definition noCallbacks_v1000 :: "'h ClassCallbacks_v1000" where
  "noCallbacks_v1000 = \<lparr>initializeEx = None, finalizeEx = None, hasPropertyEx = None,
     getPropertyEx = None, setPropertyEx = None, deletePropertyEx = None,
     getPropertyNamesEx = None, callAsFunctionEx = None\<rparr>"

definition emptyWorld :: "'h \<Rightarrow> 'h world" where
  "emptyWorld h = \<lparr>host = h, properties = [], exception = None, cells = (\<lambda>n. None),
     allocated = 0, trace = []\<rparr>"

text \<open>A class of its own that defines nothing, derived from a given parent.\<close>

definition derivedFrom :: "'h OpaqueJSClass \<Rightarrow> 'h OpaqueJSClass" where
  "derivedFrom parent = OpaqueJSClass 9 0 noCallbacks_v0 noCallbacks_v1000 None None (Some parent)"

text \<open>
  A class derived from a given parent whose setProperty and deleteProperty callbacks
  decline every name: they return false, signal nothing and leave a note.
\<close>

definition declineSet :: "string list JSObjectSetPropertyCallback" where
  "declineSet name v h = ((False, None), h @ [''not mine''])"

definition declineDelete :: "string list JSObjectDeletePropertyCallback" where
  "declineDelete name h = ((False, None), h @ [''not mine''])"

definition reluctantFrom :: "string list OpaqueJSClass \<Rightarrow> string list OpaqueJSClass" where
  "reluctantFrom parent = OpaqueJSClass 15 0
     (noCallbacks_v0\<lparr>setProperty := Some declineSet, deleteProperty := Some declineDelete\<rparr>)
     noCallbacks_v1000 None None (Some parent)"

text \<open>A static value \<open>y\<close> that can be written: a version 0 entry with getter and setter.\<close>

definition giveHi :: "string list JSObjectGetPropertyCallback" where
  "giveHi name h = ((Some (JSString ''hi''), None), h)"

definition noteSet :: "string list JSObjectSetPropertyCallback" where
  "noteSet name v h = ((True, None), h @ [''set '' @ name])"

definition writableValue :: "string list StaticValueEntry" where
  "writableValue = \<lparr>value_version = 0, value_v0_getProperty = Some giveHi,
     value_v0_setProperty = Some noteSet, value_v1000_getPropertyEx = None,
     value_v1000_setPropertyEx = None, value_attributes = kJSPropertyAttributeNone\<rparr>"

definition classWithValue :: "string list OpaqueJSClass" where
  "classWithValue = OpaqueJSClass 1 0 noCallbacks_v0 noCallbacks_v1000
     (Some [(''y'', writableValue)]) None None"

text \<open>
  A version 1000 class whose set callback accepts \<open>x\<close>, signals an exception for
  \<open>locked\<close> and declines every other name.
\<close>

definition guardedSet :: "string list JSObjectSetPropertyCallbackEx" where
  "guardedSet classRef name v h =
     (if name = ''x'' then ((True, None), h @ [''x set''])
      else if name = ''locked'' then ((False, Some (JSString ''locked'')), h)
      else ((False, None), h @ [''declined'']))"

definition setterClass :: "string list OpaqueJSClass" where
  "setterClass = OpaqueJSClass 2 1000 noCallbacks_v0
     (noCallbacks_v1000\<lparr>setPropertyEx := Some guardedSet\<rparr>) None None None"

text \<open>
  A class with two static functions: \<open>f\<close>, which may be overwritten, and \<open>g\<close>, which is
  ReadOnly.
\<close>

definition noteCall :: "string list JSObjectCallAsFunctionCallback" where
  "noteCall thisObj arguments h =
     ((Some (JSNumber (int (length arguments))), None), h @ [''called''])"

definition plainMethod :: "string list StaticFunctionEntry" where
  "plainMethod = \<lparr>function_version = 0, function_v0_callAsFunction = Some noteCall,
     function_v1000_callAsFunctionEx = None,
     function_attributes = kJSPropertyAttributeDontDelete\<rparr>"

definition fixedMethod :: "string list StaticFunctionEntry" where
  "fixedMethod = \<lparr>function_version = 0, function_v0_callAsFunction = Some noteCall,
     function_v1000_callAsFunctionEx = None,
     function_attributes = kJSPropertyAttributeReadOnly\<rparr>"

definition classWithMethods :: "string list OpaqueJSClass" where
  "classWithMethods = OpaqueJSClass 3 0 noCallbacks_v0 noCallbacks_v1000 None
     (Some [(''f'', plainMethod), (''g'', fixedMethod)]) None"

text \<open>
  A base class whose delete callback signals an exception for \<open>bad\<close> and deletes every
  other name, and a class derived from it with a static value \<open>y\<close> and the static
  functions \<open>f\<close> (DontDelete) and \<open>g\<close> (not DontDelete).
\<close>

definition guardedDelete :: "string list JSObjectDeletePropertyCallback" where
  "guardedDelete name h =
     (if name = ''bad'' then ((False, Some (JSString ''no'')), h)
      else ((True, None), h @ [''deleted '' @ name]))"

definition deleterClass :: "string list OpaqueJSClass" where
  "deleterClass = OpaqueJSClass 4 0 (noCallbacks_v0\<lparr>deleteProperty := Some guardedDelete\<rparr>)
     noCallbacks_v1000 None None None"

definition fixedValue :: "string list StaticValueEntry" where
  "fixedValue = \<lparr>value_version = 0, value_v0_getProperty = Some giveHi,
     value_v0_setProperty = None, value_v1000_getPropertyEx = None,
     value_v1000_setPropertyEx = None,
     value_attributes = kJSPropertyAttributeReadOnly OR kJSPropertyAttributeDontDelete\<rparr>"

definition keeperClass :: "string list OpaqueJSClass" where
  "keeperClass = OpaqueJSClass 5 0 noCallbacks_v0 noCallbacks_v1000
     (Some [(''y'', fixedValue)]) (Some [(''f'', plainMethod), (''g'', fixedMethod)])
     (Some deleterClass)"

text \<open>
  A chain of three classes, \<open>leafClass\<close> derived from \<open>midClass\<close> derived from
  \<open>rootClass\<close>, each with an initialize and a finalize callback that leave a note;
  \<open>midClass\<close> is a version 1000 class and the only one that can be called.
\<close>

definition leaveNote :: "string \<Rightarrow> string list \<Rightarrow> string list" where
  "leaveNote s h = h @ [s]"

definition rootClass :: "string list OpaqueJSClass" where
  "rootClass = OpaqueJSClass 10 0
     (noCallbacks_v0\<lparr>initialize := Some (leaveNote ''init root''),
        finalize := Some (leaveNote ''finalize root'')\<rparr>)
     noCallbacks_v1000 None None None"

definition midClass :: "string list OpaqueJSClass" where
  "midClass = OpaqueJSClass 11 1000 noCallbacks_v0
     (noCallbacks_v1000\<lparr>initializeEx := Some (\<lambda>c. leaveNote ''init mid''),
        finalizeEx := Some (\<lambda>c. leaveNote ''finalize mid''),
        callAsFunctionEx := Some (\<lambda>c. noteCall)\<rparr>)
     None None (Some rootClass)"

definition leafClass :: "string list OpaqueJSClass" where
  "leafClass = OpaqueJSClass 12 0
     (noCallbacks_v0\<lparr>initialize := Some (leaveNote ''init leaf''),
        finalize := Some (leaveNote ''finalize leaf'')\<rparr>)
     noCallbacks_v1000 None None (Some midClass)"

text \<open>
  Classes whose hasProperty callback claims every name: \<open>claimingClass\<close> has no
  getProperty callback and a parent whose getProperty callback depends on the host
  state, yielding a value only while the host has no notes yet and nothing afterwards;
  \<open>answeringClass\<close> has a getProperty callback that yields 42.
\<close>

definition claimAll :: "string list JSObjectHasPropertyCallback" where
  "claimAll name h = (True, h @ [''has '' @ name])"

definition giveWhenFresh :: "string list JSObjectGetPropertyCallback" where
  "giveWhenFresh name h =
     (if h = [] then ((Some (JSNumber 1), None), h)
      else ((None, None), h @ [''nothing for '' @ name]))"

definition give42 :: "string list JSObjectGetPropertyCallback" where
  "give42 name h = ((Some (JSNumber 42), None), h @ [''get '' @ name])"

definition quietClass :: "string list OpaqueJSClass" where
  "quietClass = OpaqueJSClass 7 1000 noCallbacks_v0
     (noCallbacks_v1000\<lparr>getPropertyEx := Some (\<lambda>c. giveWhenFresh)\<rparr>) None None None"

definition claimingClass :: "string list OpaqueJSClass" where
  "claimingClass = OpaqueJSClass 6 0 (noCallbacks_v0\<lparr>hasProperty := Some claimAll\<rparr>)
     noCallbacks_v1000 None None (Some quietClass)"

definition answeringClass :: "string list OpaqueJSClass" where
  "answeringClass = OpaqueJSClass 8 0
     (noCallbacks_v0\<lparr>hasProperty := Some claimAll, getProperty := Some give42\<rparr>)
     noCallbacks_v1000 None None None"

text \<open>
  A class derived from a given parent whose hasProperty callback denies every name.
\<close>

definition denyAll :: "string list JSObjectHasPropertyCallback" where
  "denyAll name h = (False, h @ [''no '' @ name])"

definition doubtfulFrom :: "string list OpaqueJSClass \<Rightarrow> string list OpaqueJSClass" where
  "doubtfulFrom parent = OpaqueJSClass 16 0 (noCallbacks_v0\<lparr>hasProperty := Some denyAll\<rparr>)
     noCallbacks_v1000 None None (Some parent)"

text \<open>
  Two classes for enumeration. \<open>listingClass\<close> has a getPropertyNames callback, the
  static values \<open>b\<close> (readable), \<open>w\<close> (a setter and no getter) and \<open>hidden\<close> (DontEnum),
  and the static functions \<open>f\<close> and \<open>secret\<close> (DontEnum); its parent \<open>baseListing\<close> has
  a version 1000 getPropertyNames callback. \<open>listingWorld\<close> is an instance state with
  two own properties.
\<close>

definition offerAB :: "string list JSObjectGetPropertyNamesCallback" where
  "offerAB h = ([''a'', ''b''], h @ [''names''])"

definition offerAC :: "string list JSObjectGetPropertyNamesCallbackEx" where
  "offerAC c h = ([''a'', ''c''], h @ [''base names''])"

definition writeOnlyValue :: "string list StaticValueEntry" where
  "writeOnlyValue = \<lparr>value_version = 0, value_v0_getProperty = None,
     value_v0_setProperty = Some noteSet, value_v1000_getPropertyEx = None,
     value_v1000_setPropertyEx = None, value_attributes = kJSPropertyAttributeNone\<rparr>"

definition hiddenValue :: "string list StaticValueEntry" where
  "hiddenValue = \<lparr>value_version = 0, value_v0_getProperty = Some giveHi,
     value_v0_setProperty = None, value_v1000_getPropertyEx = None,
     value_v1000_setPropertyEx = None, value_attributes = kJSPropertyAttributeDontEnum\<rparr>"

definition hiddenMethod :: "string list StaticFunctionEntry" where
  "hiddenMethod = \<lparr>function_version = 0, function_v0_callAsFunction = Some noteCall,
     function_v1000_callAsFunctionEx = None,
     function_attributes = kJSPropertyAttributeDontEnum\<rparr>"

definition baseListing :: "string list OpaqueJSClass" where
  "baseListing = OpaqueJSClass 13 1000 noCallbacks_v0
     (noCallbacks_v1000\<lparr>getPropertyNamesEx := Some offerAC\<rparr>) None None None"

definition listingClass :: "string list OpaqueJSClass" where
  "listingClass = OpaqueJSClass 14 0 (noCallbacks_v0\<lparr>getPropertyNames := Some offerAB\<rparr>)
     noCallbacks_v1000
     (Some [(''b'', writableValue), (''w'', writeOnlyValue), (''hidden'', hiddenValue)])
     (Some [(''f'', plainMethod), (''secret'', hiddenMethod)])
     (Some baseListing)"

definition listingWorld :: "string list world" where
  "listingWorld = (emptyWorld [])\<lparr>properties :=
     [(PropertyName (Some ''own''), JSNumber 1, kJSPropertyAttributeNone),
      (PropertyName (Some ''a''), JSNumber 2, kJSPropertyAttributeNone)]\<rparr>"

section \<open>Theorems\<close>

subsection \<open>The generic object and the shared steps\<close>



lemma Parent_getOwnPropertySlot_properties:
  "properties w' = properties w \<Longrightarrow>
   Parent_getOwnPropertySlot propertyName w' = Parent_getOwnPropertySlot propertyName w"
  by (simp add: Parent_getOwnPropertySlot_def)

lemma staticFunctionGetter_own:
  "Parent_getOwnPropertySlot propertyName w = Some v \<Longrightarrow>
   staticFunctionGetter classRef propertyName w = (v, w)"
  by (simp add: staticFunctionGetter_def)

subsection \<open>put\<close>

lemma put_setProperty_eq:
  "put_setProperty jsClass name v w =
     (case setPropertyCallback jsClass of
        Some f \<Rightarrow> put_result (invoke (Callback (ref jsClass) SetProperty) (f name v) w)
      | None \<Rightarrow> (None, w))"
  by (simp add: put_setProperty_def setPropertyCallback_def class_setProperty_def
      class_setPropertyEx_def split: option.splits)


lemma put_loop_passes:
  "put_passes pre propertyName name v w = Some w0 \<Longrightarrow>
   put_loop (pre @ chain) propertyName name v w = put_loop chain propertyName name v w0"
  by (induction pre arbitrary: w) (auto split: prod.splits option.splits)

lemma put_result_invoke:
  "callback (host w) = ((result, exception'), h) \<Longrightarrow>
   put_result (invoke ev callback w) =
     (if result \<or> exception' \<noteq> None then Some result else None,
      w\<lparr>host := h, trace := trace w @ [ev],
        exception := (case exception' of Some e \<Rightarrow> Some e | None \<Rightarrow> exception w)\<rparr>)"
  by (cases exception') (simp_all add: put_result_def invoke_def throwException_def)

lemmas example_defs = noCallbacks_v0_def noCallbacks_v1000_def emptyWorld_def derivedFrom_def
  reluctantFrom_def declineSet_def declineDelete_def

lemmas put_defs = put_def put_class_def put_setProperty_def put_staticValue_def
  put_staticFunction_def class_setProperty_def class_setPropertyEx_def put_result_def invoke_def
  throwException_def Parent_put_def putDirect_def Parent_getOwnPropertySlot_def
  kJSPropertyAttributeNone_def kJSPropertyAttributeReadOnly_def

text \<open>
  C1. The claim: when no setProperty callback handles a set and a static value of that
  name has a setter of its generation, put invokes that setter. Here the code is run
  on a class with no callbacks of its own and a writable version 0 static value \<open>y\<close>
  whose setter is defined: no callback is invoked (the log and the host state stay
  empty), and the value lands in the generic object as an ordinary property. The guard
  before the call (line 321) asks for the class's own setProperty callback, not the
  entry's.
\<close>

theorem put_skips_static_setter:
  "staticValueEntry classWithValue ''y'' = Some writableValue
   \<and> value_version writableValue = 0
   \<and> value_v0_setProperty writableValue = Some noteSet
   \<and> value_attributes writableValue AND kJSPropertyAttributeReadOnly = 0
   \<and> put classWithValue (PropertyName (Some ''y'')) (JSNumber 7) (emptyWorld []) =
       (True, (emptyWorld [])\<lparr>properties :=
          [(PropertyName (Some ''y''), JSNumber 7, kJSPropertyAttributeNone)]\<rparr>)"
  by (simp add: example_defs put_defs staticValueEntry_def writableValue_def classWithValue_def)

text \<open>
  A ReadOnly static value makes put return false: when the walk reaches a class whose
  static value of the name is ReadOnly and the class's own setProperty callback has not
  handled the set, put returns false in the state that callback left, so the entry's
  setter is not invoked.
\<close>

lemma put_readOnly_static_value_fails:
  assumes "classChain classRef = pre @ jsClass # rest"
    and "put_passes pre (PropertyName (Some name)) name v w = Some w0"
    and "put_setProperty jsClass name v w0 = (None, w1)"
    and "staticValueEntry jsClass name = Some entry"
    and "value_attributes entry AND kJSPropertyAttributeReadOnly \<noteq> 0"
  shows "put classRef (PropertyName (Some name)) v w = (False, w1)"
  using assms
  by (auto simp: put_def put_loop_passes put_class_def put_staticValue_def staticValueEntry_def
      split: option.splits)

text \<open>
  C2. The claim: a setProperty callback in the chain is authoritative, its boolean
  result decides the success of the set. At the input below the callback of
  \<open>setterClass\<close> returns false without an exception, and put returns true all the
  same: the walk went on and the generic put stored the value.
\<close>

theorem put_setProperty_false_is_not_final:
  "setPropertyCallback setterClass = Some (guardedSet 2)
   \<and> guardedSet 2 ''other'' (JSNumber 1) [] = ((False, None), [''declined''])
   \<and> put setterClass (PropertyName (Some ''other'')) (JSNumber 1) (emptyWorld []) =
       (True, (emptyWorld [])\<lparr>host := [''declined''],
          properties := [(PropertyName (Some ''other''), JSNumber 1, kJSPropertyAttributeNone)],
          trace := [Callback 2 SetProperty]\<rparr>)"
  by (simp add: example_defs put_defs setPropertyCallback_def guardedSet_def setterClass_def)

text \<open>
  C2, as amended. Let the walk of put reach a class that defines a setProperty callback
  for its generation: the walk has passed the classes before it and is in state \<open>w0\<close>.
  The callback is invoked once. If it returns true or signals an exception, put returns
  the callback's boolean result at once, with the exception thrown if there is one:
  the final state differs from \<open>w0\<close> only by the callback's effect on the host, the log
  entry and the pending exception, so no further class, no static table and no generic
  put was consulted. If it returns false without an exception, the result is that of
  the rest of the walk: the class's static value, its static function, the remaining
  classes and the generic put.
\<close>

theorem put_setProperty_decides:
  assumes "classChain classRef = pre @ jsClass # rest"
    and "put_passes pre (PropertyName (Some name)) name v w = Some w0"
    and "setPropertyCallback jsClass = Some callback"
    and "callback name v (host w0) = ((result, exception'), h)"
  shows "put classRef (PropertyName (Some name)) v w =
     (let w1 = w0\<lparr>host := h, trace := trace w0 @ [Callback (ref jsClass) SetProperty],
                   exception := (case exception' of Some e \<Rightarrow> Some e | None \<Rightarrow> exception w0)\<rparr>
      in if result \<or> exception' \<noteq> None then (result, w1)
         else (case put_staticValue jsClass name v w1 of
                 (Some r, w2) \<Rightarrow> (r, w2)
               | (None, w2) \<Rightarrow>
                   (case put_staticFunction jsClass (PropertyName (Some name)) name v w2 of
                      (Some r, w3) \<Rightarrow> (r, w3)
                    | (None, w3) \<Rightarrow> put_loop rest (PropertyName (Some name)) name v w3)))"
  using assms
  by (auto simp: put_def put_loop_passes put_class_def put_setProperty_eq put_result_invoke
      Let_def split: prod.splits option.splits)

theorem put_setProperty_decides_witness:
  "put (reluctantFrom setterClass) (PropertyName (Some ''locked'')) (JSNumber 1) (emptyWorld []) =
     (False, (emptyWorld [])\<lparr>host := [''not mine''],
        trace := [Callback 15 SetProperty, Callback 2 SetProperty],
        exception := Some (JSString ''locked'')\<rparr>)
   \<and> put (reluctantFrom setterClass) (PropertyName (Some ''x'')) (JSNumber 1) (emptyWorld []) =
     (True, (emptyWorld [])\<lparr>host := [''not mine'', ''x set''],
        trace := [Callback 15 SetProperty, Callback 2 SetProperty],
        exception := None\<rparr>)"
proof -
  let ?c = "reluctantFrom setterClass"
  let ?w = "emptyWorld [] :: string list world"
  let ?passed = "?w\<lparr>host := [''not mine''], trace := [Callback 15 SetProperty]\<rparr>"
  have chain: "classChain ?c = [?c] @ setterClass # []"
    by (simp add: reluctantFrom_def setterClass_def)
  have passes: "put_passes [?c] (PropertyName (Some n)) n (JSNumber 1) ?w = Some ?passed" for n
    by (simp add: put_defs example_defs)
  have callback: "setPropertyCallback setterClass = Some (guardedSet 2)"
    by (simp add: setPropertyCallback_def setterClass_def example_defs)
  have locked: "guardedSet 2 ''locked'' (JSNumber 1) (host ?passed) =
      ((False, Some (JSString ''locked'')), [''not mine''])"
    by (simp add: guardedSet_def)
  have x: "guardedSet 2 ''x'' (JSNumber 1) (host ?passed) = ((True, None), [''not mine'', ''x set''])"
    by (simp add: guardedSet_def)
  show ?thesis
    using put_setProperty_decides [OF chain passes callback locked]
      put_setProperty_decides [OF chain passes callback x]
    by (simp add: emptyWorld_def setterClass_def)
qed

subsection \<open>put on a static function\<close>



subsection \<open>deleteProperty\<close>

lemma delete_deleteProperty_eq:
  "delete_deleteProperty jsClass name w =
     (case deletePropertyCallback jsClass of
        Some f \<Rightarrow> delete_result (invoke (Callback (ref jsClass) DeleteProperty) (f name) w)
      | None \<Rightarrow> (None, w))"
  by (simp add: delete_deleteProperty_def deletePropertyCallback_def class_deleteProperty_def
      class_deletePropertyEx_def split: option.splits)

lemma delete_staticValue_eq:
  "delete_staticValue jsClass name =
     (case staticValueEntry jsClass name of
        None \<Rightarrow> None
      | Some entry \<Rightarrow>
          Some (value_attributes entry AND kJSPropertyAttributeDontDelete = 0))"
  by (simp add: delete_staticValue_def staticValueEntry_def split: option.splits)

lemma delete_staticFunction_eq:
  "delete_staticFunction jsClass name =
     (case staticFunctionEntry jsClass name of
        None \<Rightarrow> None
      | Some entry \<Rightarrow>
          Some (function_attributes entry AND kJSPropertyAttributeDontDelete = 0))"
  by (simp add: delete_staticFunction_def staticFunctionEntry_def split: option.splits)

lemma deleteProperty_loop_passes:
  "delete_passes pre name w = Some w0 \<Longrightarrow>
   deleteProperty_loop (pre @ chain) propertyName name w =
     deleteProperty_loop chain propertyName name w0"
  by (induction pre arbitrary: w) (auto split: prod.splits option.splits)

lemma delete_result_invoke:
  "callback (host w) = ((result, exception'), h) \<Longrightarrow>
   delete_result (invoke ev callback w) =
     (if result \<or> exception' \<noteq> None then Some True else None,
      w\<lparr>host := h, trace := trace w @ [ev],
        exception := (case exception' of Some e \<Rightarrow> Some e | None \<Rightarrow> exception w)\<rparr>)"
  by (cases exception') (simp_all add: delete_result_def invoke_def throwException_def)

lemmas delete_defs = deleteProperty_op_def delete_class_def delete_deleteProperty_def
  delete_staticValue_def delete_staticFunction_def class_deleteProperty_def
  class_deletePropertyEx_def delete_result_def invoke_def throwException_def

text \<open>
  C8. Let the walk of deleteProperty reach a class with a static value or a static
  function of the name: the walk has passed the classes before it, and the class's own
  deleteProperty callback is absent or does not answer (\<open>w1\<close> is the state it leaves).
  Then the delete returns false if the entry is DontDelete and true if it is not, and
  in both cases the final state is \<open>w1\<close>: no callback of a deeper class was invoked and
  nothing else was consulted.
\<close>

theorem deleteProperty_static_entry:
  assumes "classChain classRef = pre @ jsClass # rest"
    and "delete_passes pre name w = Some w0"
    and "delete_deleteProperty jsClass name w0 = (None, w1)"
    and "staticEntryAttributes jsClass name = Some attributes"
  shows "deleteProperty_op classRef (PropertyName (Some name)) w =
     (if attributes AND kJSPropertyAttributeDontDelete \<noteq> 0 then False else True, w1)"
  using assms
  by (auto simp: deleteProperty_op_def deleteProperty_loop_passes delete_class_def
      staticEntryAttributes_def delete_staticValue_eq delete_staticFunction_eq
      split: option.splits)

theorem deleteProperty_static_entry_witness:
  "deleteProperty_op (reluctantFrom keeperClass) (PropertyName (Some ''y'')) (emptyWorld []) =
     (False, (emptyWorld [])\<lparr>host := [''not mine''], trace := [Callback 15 DeleteProperty]\<rparr>)
   \<and> deleteProperty_op (reluctantFrom keeperClass) (PropertyName (Some ''f'')) (emptyWorld []) =
     (False, (emptyWorld [])\<lparr>host := [''not mine''], trace := [Callback 15 DeleteProperty]\<rparr>)
   \<and> deleteProperty_op (reluctantFrom keeperClass) (PropertyName (Some ''g'')) (emptyWorld []) =
     (True, (emptyWorld [])\<lparr>host := [''not mine''], trace := [Callback 15 DeleteProperty]\<rparr>)"
proof -
  let ?c = "reluctantFrom keeperClass"
  let ?w = "emptyWorld [] :: string list world"
  let ?passed = "?w\<lparr>host := [''not mine''], trace := [Callback 15 DeleteProperty]\<rparr>"
  have chain: "classChain ?c = [?c] @ keeperClass # [deleterClass]"
    by (simp add: reluctantFrom_def keeperClass_def deleterClass_def)
  have passes: "delete_passes [?c] n ?w = Some ?passed" for n
    by (simp add: delete_defs example_defs)
  have callback: "delete_deleteProperty keeperClass n ?passed = (None, ?passed)" for n
    by (simp add: delete_deleteProperty_eq deletePropertyCallback_def keeperClass_def
        example_defs)
  have y: "staticEntryAttributes keeperClass ''y'' =
      Some (kJSPropertyAttributeReadOnly OR kJSPropertyAttributeDontDelete)"
    and f: "staticEntryAttributes keeperClass ''f'' = Some kJSPropertyAttributeDontDelete"
    and g: "staticEntryAttributes keeperClass ''g'' = Some kJSPropertyAttributeReadOnly"
    by (simp_all add: staticEntryAttributes_def staticValueEntry_def staticFunctionEntry_def
        keeperClass_def fixedValue_def plainMethod_def fixedMethod_def)
  show ?thesis
    using deleteProperty_static_entry [OF chain passes callback y]
      deleteProperty_static_entry [OF chain passes callback f]
      deleteProperty_static_entry [OF chain passes callback g]
    by (simp add: kJSPropertyAttributeReadOnly_def kJSPropertyAttributeDontDelete_def)
qed

text \<open>
  C10. Let the walk of deleteProperty reach a class that defines a deleteProperty
  callback for its generation (the walk has passed the classes before it and is in
  state \<open>w0\<close>), and let the callback signal an exception. Then the exception is thrown
  and the delete returns true, whatever boolean the callback returned.
\<close>

theorem deleteProperty_exception_returns_true:
  assumes "classChain classRef = pre @ jsClass # rest"
    and "delete_passes pre name w = Some w0"
    and "deletePropertyCallback jsClass = Some callback"
    and "callback name (host w0) = ((result, Some e), h)"
  shows "deleteProperty_op classRef (PropertyName (Some name)) w =
     (True, w0\<lparr>host := h, trace := trace w0 @ [Callback (ref jsClass) DeleteProperty],
               exception := Some e\<rparr>)"
  using assms
  by (simp add: deleteProperty_op_def deleteProperty_loop_passes delete_class_def
      delete_deleteProperty_eq delete_result_invoke)

theorem deleteProperty_exception_returns_true_witness:
  "guardedDelete ''bad'' [''not mine''] = ((False, Some (JSString ''no'')), [''not mine''])
   \<and> deleteProperty_op (reluctantFrom deleterClass) (PropertyName (Some ''bad'')) (emptyWorld []) =
     (True, (emptyWorld [])\<lparr>host := [''not mine''],
        trace := [Callback 15 DeleteProperty, Callback 4 DeleteProperty],
        exception := Some (JSString ''no'')\<rparr>)"
proof -
  let ?c = "reluctantFrom deleterClass"
  let ?w = "emptyWorld [] :: string list world"
  let ?passed = "?w\<lparr>host := [''not mine''], trace := [Callback 15 DeleteProperty]\<rparr>"
  have chain: "classChain ?c = [?c] @ deleterClass # []"
    by (simp add: reluctantFrom_def deleterClass_def)
  have passes: "delete_passes [?c] ''bad'' ?w = Some ?passed"
    by (simp add: delete_defs example_defs)
  have callback: "deletePropertyCallback deleterClass = Some guardedDelete"
    by (simp add: deletePropertyCallback_def deleterClass_def example_defs)
  have bad: "guardedDelete ''bad'' (host ?passed) = ((False, Some (JSString ''no'')), [''not mine''])"
    by (simp add: guardedDelete_def)
  show ?thesis
    using deleteProperty_exception_returns_true [OF chain passes callback bad] bad
    by (simp add: emptyWorld_def deleterClass_def)
qed

subsection \<open>getCallData and call\<close>

lemma getCallData_loop_iff:
  "getCallData_loop chain = CallType_Host \<longleftrightarrow>
     (\<exists>c\<in>set chain. callAsFunctionCallback c \<noteq> None)"
  by (induction chain) (auto simp: callAsFunctionCallback_def)

lemma call_loop_Cons:
  "call_loop (c # chain) thisObj arguments w =
     (case callAsFunctionCallback c of
        Some callback \<Rightarrow>
          Inr (call_result (invoke (Callback (ref c) CallAsFunction)
                 (callback thisObj arguments) w))
      | None \<Rightarrow> call_loop chain thisObj arguments w)"
  by (simp add: callAsFunctionCallback_def class_callAsFunction_def class_callAsFunctionEx_def
      split: option.splits)

lemma call_loop_find:
  "List.find (\<lambda>c. callAsFunctionCallback c \<noteq> None) chain = Some c \<Longrightarrow>
   callAsFunctionCallback c = Some callback \<Longrightarrow>
   call_loop chain thisObj arguments w =
     Inr (call_result (invoke (Callback (ref c) CallAsFunction) (callback thisObj arguments) w))"
proof (induction chain)
  case Nil
  then show ?case by simp
next
  case (Cons d chain)
  show ?case
  proof (cases "callAsFunctionCallback d")
    case None
    with Cons show ?thesis by (simp add: call_loop_Cons del: call_loop.simps)
  next
    case (Some f)
    with Cons.prems show ?thesis by (simp add: call_loop_Cons del: call_loop.simps)
  qed
qed

lemma call_loop_callable:
  "\<exists>c\<in>set chain. callAsFunctionCallback c \<noteq> None \<Longrightarrow>
   \<exists>r. call_loop chain thisObj arguments w = Inr r"
proof (induction chain)
  case Nil
  then show ?case by simp
next
  case (Cons d chain)
  then show ?case
    by (cases "callAsFunctionCallback d") (auto simp: call_loop_Cons simp del: call_loop.simps)
qed

lemma call_result_invoke:
  "callback (host w) = ((result, exception'), h) \<Longrightarrow>
   call_result (invoke ev callback w) =
     (result, w\<lparr>host := h, trace := trace w @ [ev],
        exception := (case exception' of Some e \<Rightarrow> Some e | None \<Rightarrow> exception w)\<rparr>)"
  by (cases exception') (simp_all add: call_result_def invoke_def throwException_def)

text \<open>
  C5. getCallData, which takes the class only and so can invoke nothing, reports
  \<open>CallType_Host\<close> exactly when some class of the chain defines a call-as-function
  callback for its generation. call dispatches to the first such class in chain order:
  it invokes that class's callback once and returns its result, throwing the exception
  it signalled if any. And whenever getCallData reported \<open>CallType_Host\<close>, call returns
  a result: the \<^verbatim>\<open>RELEASE_ASSERT_NOT_REACHED\<close> after the loop is not reached.
\<close>

theorem call_follows_getCallData:
  "(getCallData classRef = CallType_Host \<longleftrightarrow>
      (\<exists>c\<in>set (classChain classRef). callAsFunctionCallback c \<noteq> None))
   \<and> (\<forall>c callback result exception' h.
        List.find (\<lambda>c. callAsFunctionCallback c \<noteq> None) (classChain classRef) = Some c
        \<and> callAsFunctionCallback c = Some callback
        \<and> callback thisObj arguments (host w) = ((result, exception'), h) \<longrightarrow>
        call classRef thisObj arguments w =
          Inr (result, w\<lparr>host := h, trace := trace w @ [Callback (ref c) CallAsFunction],
                 exception := (case exception' of Some e \<Rightarrow> Some e | None \<Rightarrow> exception w)\<rparr>))
   \<and> (getCallData classRef = CallType_Host \<longrightarrow>
        (\<exists>r. call classRef thisObj arguments w = Inr r)
        \<and> call classRef thisObj arguments w \<noteq> Inl ReleaseAssertNotReached)"
proof (intro conjI allI impI)
  show "getCallData classRef = CallType_Host \<longleftrightarrow>
      (\<exists>c\<in>set (classChain classRef). callAsFunctionCallback c \<noteq> None)"
    by (simp add: getCallData_def getCallData_loop_iff)
next
  fix c callback result exception' h
  assume "List.find (\<lambda>c. callAsFunctionCallback c \<noteq> None) (classChain classRef) = Some c
        \<and> callAsFunctionCallback c = Some callback
        \<and> callback thisObj arguments (host w) = ((result, exception'), h)"
  then show "call classRef thisObj arguments w =
          Inr (result, w\<lparr>host := h, trace := trace w @ [Callback (ref c) CallAsFunction],
                 exception := (case exception' of Some e \<Rightarrow> Some e | None \<Rightarrow> exception w)\<rparr>)"
    by (simp add: call_def call_loop_find call_result_invoke)
next
  assume "getCallData classRef = CallType_Host"
  then have "\<exists>c\<in>set (classChain classRef). callAsFunctionCallback c \<noteq> None"
    by (simp add: getCallData_def getCallData_loop_iff)
  then show "\<exists>r. call classRef thisObj arguments w = Inr r"
    unfolding call_def by (rule call_loop_callable)
next
  assume "getCallData classRef = CallType_Host"
  then have "\<exists>c\<in>set (classChain classRef). callAsFunctionCallback c \<noteq> None"
    by (simp add: getCallData_def getCallData_loop_iff)
  then have "\<exists>r. call classRef thisObj arguments w = Inr r"
    unfolding call_def by (rule call_loop_callable)
  then show "call classRef thisObj arguments w \<noteq> Inl ReleaseAssertNotReached"
    by auto
qed

theorem call_follows_getCallData_witness:
  "getCallData leafClass = CallType_Host
   \<and> getCallData rootClass = CallType_None
   \<and> call leafClass JSUndefined [JSNumber 1, JSNumber 2] (emptyWorld []) =
       Inr (Some (JSNumber 2),
            (emptyWorld [])\<lparr>host := [''called''], trace := [Callback 11 CallAsFunction],
               exception := None\<rparr>)"
proof -
  let ?w = "emptyWorld [] :: string list world"
  note facts = call_follows_getCallData [of leafClass JSUndefined "[JSNumber 1, JSNumber 2]" ?w]
  have callbacks: "callAsFunctionCallback leafClass = None"
    "callAsFunctionCallback midClass = Some noteCall"
    "callAsFunctionCallback rootClass = None"
    by (simp_all add: callAsFunctionCallback_def leafClass_def midClass_def rootClass_def
        example_defs)
  have chain: "classChain leafClass = [leafClass, midClass, rootClass]"
    "classChain rootClass = [rootClass]"
    by (simp_all add: leafClass_def midClass_def rootClass_def)
  have first: "List.find (\<lambda>c. callAsFunctionCallback c \<noteq> None) (classChain leafClass)
      = Some midClass"
    by (simp add: chain callbacks)
  have run: "noteCall JSUndefined [JSNumber 1, JSNumber 2] (host ?w) =
      ((Some (JSNumber 2), None), [''called''])"
    by (simp add: noteCall_def emptyWorld_def)
  have callable: "getCallData leafClass = CallType_Host"
    using facts [THEN conjunct1] by (simp add: chain callbacks)
  have not_callable: "getCallData rootClass = CallType_None"
    using call_follows_getCallData [of rootClass JSUndefined "[]" ?w, THEN conjunct1]
    by (cases "getCallData rootClass") (simp_all add: chain callbacks)
  have "call leafClass JSUndefined [JSNumber 1, JSNumber 2] ?w =
       Inr (Some (JSNumber 2),
            ?w\<lparr>host := [''called''], trace := trace ?w @ [Callback (ref midClass) CallAsFunction],
               exception := (case None of Some e \<Rightarrow> Some e | None \<Rightarrow> exception ?w)\<rparr>)"
    using facts [THEN conjunct2, THEN conjunct1] first callbacks(2) run by blast
  then show ?thesis using callable not_callable by (simp add: emptyWorld_def midClass_def)
qed

subsection \<open>init and the destructor\<close>

lemma init_loop_take:
  "n \<le> length initRoutines \<Longrightarrow>
   init_loop initRoutines n w = fold init_class (rev (take n initRoutines)) w"
  by (induction n arbitrary: w) (simp_all add: take_Suc_conv_app_nth)

lemma destructor_loop_fold: "destructor_loop chain w = fold finalize_class chain w"
  by (induction chain arbitrary: w) simp_all

lemma init_class_effect:
  "trace (init_class c w) =
     trace w @ (if initializeCallback c \<noteq> None then [Callback (ref c) Initialize] else [])"
  "host (init_class c w) =
     (case initializeCallback c of Some callback \<Rightarrow> callback (host w) | None \<Rightarrow> host w)"
  by (auto simp: init_class_def initializeCallback_def invoke_def split: option.splits)

lemma finalize_class_effect:
  "trace (finalize_class c w) =
     trace w @ (if finalizeCallback c \<noteq> None then [Callback (ref c) Finalize] else [])"
  "host (finalize_class c w) =
     (case finalizeCallback c of Some callback \<Rightarrow> callback (host w) | None \<Rightarrow> host w)"
  by (auto simp: finalize_class_def finalizeCallback_def invoke_def split: option.splits)

lemma fold_init_class:
  "trace (fold init_class cs w) =
     trace w @ map (\<lambda>c. Callback (ref c) Initialize)
       (filter (\<lambda>c. initializeCallback c \<noteq> None) cs)"
  "host (fold init_class cs w) =
     fold (\<lambda>c h. case initializeCallback c of Some callback \<Rightarrow> callback h | None \<Rightarrow> h)
       cs (host w)"
  by (induction cs arbitrary: w) (simp_all add: init_class_effect)

lemma fold_finalize_class:
  "trace (fold finalize_class cs w) =
     trace w @ map (\<lambda>c. Callback (ref c) Finalize)
       (filter (\<lambda>c. finalizeCallback c \<noteq> None) cs)"
  "host (fold finalize_class cs w) =
     fold (\<lambda>c h. case finalizeCallback c of Some callback \<Rightarrow> callback h | None \<Rightarrow> h)
       cs (host w)"
  by (induction cs arbitrary: w) (simp_all add: finalize_class_effect)

text \<open>
  C9. init invokes the initialize callbacks that the classes of the chain define, from
  the root to the instance's class: the chain reversed. The destructor invokes the
  finalize callbacks from the instance's class to the root: the chain as it is walked.
  Both the log of invocations and the effect on the host state are those of running
  the callbacks in that order.
\<close>

theorem init_base_to_derived_finalize_derived_to_base:
  "trace (init classRef w) =
     trace w @ map (\<lambda>c. Callback (ref c) Initialize)
       (filter (\<lambda>c. initializeCallback c \<noteq> None) (rev (classChain classRef)))
   \<and> host (init classRef w) =
     fold (\<lambda>c h. case initializeCallback c of Some callback \<Rightarrow> callback h | None \<Rightarrow> h)
       (rev (classChain classRef)) (host w)
   \<and> trace (destructor classRef w) =
     trace w @ map (\<lambda>c. Callback (ref c) Finalize)
       (filter (\<lambda>c. finalizeCallback c \<noteq> None) (classChain classRef))
   \<and> host (destructor classRef w) =
     fold (\<lambda>c h. case finalizeCallback c of Some callback \<Rightarrow> callback h | None \<Rightarrow> h)
       (classChain classRef) (host w)"
  by (simp add: init_def destructor_def init_loop_take destructor_loop_fold fold_init_class
      fold_finalize_class Let_def)

theorem init_base_to_derived_finalize_derived_to_base_witness:
  "classChain leafClass = [leafClass, midClass, rootClass]
   \<and> trace (init leafClass (emptyWorld [])) =
       [Callback 10 Initialize, Callback 11 Initialize, Callback 12 Initialize]
   \<and> host (init leafClass (emptyWorld [])) = [''init root'', ''init mid'', ''init leaf'']
   \<and> trace (destructor leafClass (emptyWorld [])) =
       [Callback 12 Finalize, Callback 11 Finalize, Callback 10 Finalize]
   \<and> host (destructor leafClass (emptyWorld [])) =
       [''finalize leaf'', ''finalize mid'', ''finalize root'']"
proof -
  have chain: "classChain leafClass = [leafClass, midClass, rootClass]"
    by (simp add: leafClass_def midClass_def rootClass_def)
  have callbacks:
    "initializeCallback leafClass = Some (leaveNote ''init leaf'')"
    "initializeCallback midClass = Some (leaveNote ''init mid'')"
    "initializeCallback rootClass = Some (leaveNote ''init root'')"
    "finalizeCallback leafClass = Some (leaveNote ''finalize leaf'')"
    "finalizeCallback midClass = Some (leaveNote ''finalize mid'')"
    "finalizeCallback rootClass = Some (leaveNote ''finalize root'')"
    by (simp_all add: initializeCallback_def finalizeCallback_def leafClass_def midClass_def
        rootClass_def example_defs)
  have refs: "ref leafClass = 12" "ref midClass = 11" "ref rootClass = 10"
    by (simp_all add: leafClass_def midClass_def rootClass_def)
  show ?thesis
    using init_base_to_derived_finalize_derived_to_base [of leafClass "emptyWorld []"]
    by (simp add: chain callbacks refs leaveNote_def emptyWorld_def)
qed

subsection \<open>staticFunctionGetter\<close>

lemma staticFunctionGetter_loop_Cons:
  "staticFunctionGetter_loop (c # chain) propertyName name w =
     (case staticFunctionEntry c name of
        None \<Rightarrow> staticFunctionGetter_loop chain propertyName name w
      | Some entry \<Rightarrow>
          (case staticFunctionObject c name entry of
             Some function \<Rightarrow>
               Some (materialize function propertyName (function_attributes entry) w)
           | None \<Rightarrow> staticFunctionGetter_loop chain propertyName name w))"
  by (simp add: staticFunctionEntry_def staticFunctionObject_def split: option.splits)

lemma staticFunctionGetter_loop_finds:
  "\<exists>c\<in>set chain. \<exists>entry. staticFunctionEntry c name = Some entry
      \<and> staticFunctionObject c name entry \<noteq> None \<Longrightarrow>
   \<exists>c\<in>set chain. \<exists>entry function. staticFunctionEntry c name = Some entry
      \<and> staticFunctionObject c name entry = Some function
      \<and> staticFunctionGetter_loop chain propertyName name w =
          Some (materialize function propertyName (function_attributes entry) w)"
proof (induction chain)
  case Nil
  then show ?case by simp
next
  case (Cons d chain)
  show ?case
  proof (cases "staticFunctionEntry d name")
    case None
    with Cons show ?thesis
      by (auto simp: staticFunctionGetter_loop_Cons simp del: staticFunctionGetter_loop.simps)
  next
    case (Some entry)
    show ?thesis
    proof (cases "staticFunctionObject d name entry")
      case None
      with Some Cons show ?thesis
        by (auto simp: staticFunctionGetter_loop_Cons simp del: staticFunctionGetter_loop.simps)
    next
      case (Some object)
      with \<open>staticFunctionEntry d name = Some entry\<close> show ?thesis
        by (auto simp: staticFunctionGetter_loop_Cons simp del: staticFunctionGetter_loop.simps)
    qed
  qed
qed

lemma materialize_effect:
  "fst (materialize function propertyName attributes w) = JSCell (allocated w)"
  "exception (snd (materialize function propertyName attributes w)) = exception w"
  "cells (snd (materialize function propertyName attributes w)) (allocated w) = Some function"
  "map_of (properties (snd (materialize function propertyName attributes w))) propertyName =
     Some (JSCell (allocated w), attributes)"
  "Parent_getOwnPropertySlot propertyName
     (snd (materialize function propertyName attributes w)) = Some (JSCell (allocated w))"
  by (simp_all add: materialize_def putDirect_def Parent_getOwnPropertySlot_def update_conv' Let_def)

text \<open>
  C7. Let some class of the chain have a static function of the name whose callback
  for its declared generation is not null, and let \<open>r\<close> be the result of
  staticFunctionGetter, value and state. Reading again in the state \<open>r\<close> leaves gives
  \<open>r\<close> again: the same value, and no change of state, because the value is now an own
  property of the instance and the getter returns it before it looks at the chain. So
  does every later read, in any state with the same own properties. The read throws
  nothing. When the instance had no own property of the name before the
  first read, the value is the new function object: it sits in the cell that was free,
  it is bound to the callback and name of a static function entry of the chain, and it
  is installed as an own property with that entry's attributes.
\<close>

theorem staticFunctionGetter_cached:
  fixes name :: name and classRef :: "'h OpaqueJSClass" and w :: "'h world"
  defines "propertyName \<equiv> PropertyName (Some name)"
  defines "r \<equiv> staticFunctionGetter classRef propertyName w"
  assumes "\<exists>c\<in>set (classChain classRef). \<exists>entry. staticFunctionEntry c name = Some entry
      \<and> staticFunctionObject c name entry \<noteq> None"
  shows "staticFunctionGetter classRef propertyName (snd r) = r
    \<and> (\<forall>w'. properties w' = properties (snd r) \<longrightarrow>
          staticFunctionGetter classRef propertyName w' = (fst r, w'))
    \<and> Parent_getOwnPropertySlot propertyName (snd r) = Some (fst r)
    \<and> exception (snd r) = exception w
    \<and> (Parent_getOwnPropertySlot propertyName w = None \<longrightarrow>
         fst r = JSCell (allocated w)
         \<and> (\<exists>c\<in>set (classChain classRef). \<exists>entry function.
               staticFunctionEntry c name = Some entry
               \<and> staticFunctionObject c name entry = Some function
               \<and> cells (snd r) (allocated w) = Some function
               \<and> map_of (properties (snd r)) propertyName
                    = Some (fst r, function_attributes entry)))"
proof (cases "Parent_getOwnPropertySlot propertyName w")
  case (Some v)
  then have "r = (v, w)"
    by (simp add: r_def staticFunctionGetter_own)
  have later: "staticFunctionGetter classRef propertyName w' = (v, w')"
    if "properties w' = properties w" for w'
    by (rule staticFunctionGetter_own)
      (simp add: Parent_getOwnPropertySlot_properties [OF that] Some)
  show ?thesis
    using Some later by (simp add: \<open>r = (v, w)\<close> staticFunctionGetter_own)
next
  case None
  from staticFunctionGetter_loop_finds [OF assms(3), of propertyName w]
  obtain c entry object where c: "c \<in> set (classChain classRef)"
    and entry: "staticFunctionEntry c name = Some entry"
    and object: "staticFunctionObject c name entry = Some object"
    and loop: "staticFunctionGetter_loop (classChain classRef) propertyName name w =
          Some (materialize object propertyName (function_attributes entry) w)"
    by blast
  have r: "r = materialize object propertyName (function_attributes entry) w"
    using None loop by (simp add: r_def staticFunctionGetter_def propertyName_def)
  have again: "staticFunctionGetter classRef propertyName (snd r) = r"
    unfolding r
    by (subst staticFunctionGetter_own [OF materialize_effect(5)])
      (simp add: prod_eq_iff materialize_effect(1))
  have new: "\<exists>c\<in>set (classChain classRef). \<exists>entry function.
               staticFunctionEntry c name = Some entry
               \<and> staticFunctionObject c name entry = Some function
               \<and> cells (snd r) (allocated w) = Some function
               \<and> map_of (properties (snd r)) propertyName
                    = Some (fst r, function_attributes entry)"
    using c entry object by (auto simp: r materialize_effect)
  have later: "staticFunctionGetter classRef propertyName w' = (fst r, w')"
    if "properties w' = properties (snd r)" for w'
    by (rule staticFunctionGetter_own)
      (simp add: Parent_getOwnPropertySlot_properties [OF that] r materialize_effect)
  show ?thesis
    using again new later by (simp add: r materialize_effect)
qed

theorem staticFunctionGetter_cached_witness:
  "fst (staticFunctionGetter (derivedFrom classWithMethods) (PropertyName (Some ''f''))
         (emptyWorld [])) = JSCell 0
   \<and> staticFunctionGetter (derivedFrom classWithMethods) (PropertyName (Some ''f''))
       (snd (staticFunctionGetter (derivedFrom classWithMethods) (PropertyName (Some ''f''))
              (emptyWorld [])))
     = staticFunctionGetter (derivedFrom classWithMethods) (PropertyName (Some ''f''))
         (emptyWorld [])
   \<and> Parent_getOwnPropertySlot (PropertyName (Some ''f''))
       (snd (staticFunctionGetter (derivedFrom classWithMethods) (PropertyName (Some ''f''))
              (emptyWorld []))) = Some (JSCell 0)"
proof -
  let ?c = "derivedFrom classWithMethods"
  let ?w = "emptyWorld [] :: string list world"
  have chain: "classChain ?c = [?c, classWithMethods]"
    by (simp add: derivedFrom_def classWithMethods_def)
  have f: "staticFunctionEntry classWithMethods ''f'' = Some plainMethod"
    by (simp add: staticFunctionEntry_def classWithMethods_def)
  have callable: "staticFunctionObject classWithMethods ''f'' plainMethod \<noteq> None"
    by (simp add: staticFunctionObject_def plainMethod_def)
  have entry: "\<exists>c\<in>set (classChain ?c). \<exists>entry. staticFunctionEntry c ''f'' = Some entry
      \<and> staticFunctionObject c ''f'' entry \<noteq> None"
    using f callable by (simp add: chain)
  have free: "Parent_getOwnPropertySlot (PropertyName (Some ''f'')) ?w = None"
    by (simp add: Parent_getOwnPropertySlot_def emptyWorld_def)
  have first: "allocated ?w = 0"
    by (simp add: emptyWorld_def)
  show ?thesis
    using staticFunctionGetter_cached [OF entry, of ?w] free first by simp
qed

subsection \<open>getOwnPropertySlot and callbackGetter\<close>

lemma slot_callbacks_has:
  "hasPropertyCallback c = Some has \<Longrightarrow> has name (host w) = (True, h) \<Longrightarrow>
   slot_callbacks c name w =
     (Some (SlotCustom (kJSPropertyAttributeReadOnly OR kJSPropertyAttributeDontEnum)
        callbackGetter_function),
      w\<lparr>host := h, trace := trace w @ [Callback (ref c) HasProperty]\<rparr>)"
  by (auto simp: slot_callbacks_def hasPropertyCallback_def class_hasProperty_def
      class_hasPropertyEx_def invoke_def Let_def split: if_splits)

lemma getOwnPropertySlot_loop_passes:
  "slot_passes classRef pre propertyName name w = Some w0 \<Longrightarrow>
   getOwnPropertySlot_loop classRef (pre @ chain) propertyName name w =
     getOwnPropertySlot_loop classRef chain propertyName name w0"
  by (induction pre arbitrary: w) (auto split: prod.splits option.splits)

lemma callbackGetter_class_eq:
  "callbackGetter_class c name w =
     (case getPropertyCallback c of
        Some get \<Rightarrow> get_result (invoke (Callback (ref c) GetProperty) (get name) w)
      | None \<Rightarrow> (None, w))"
  by (simp add: callbackGetter_class_def getPropertyCallback_def class_getProperty_def
      class_getPropertyEx_def split: option.splits)

lemma callbackGetter_loop_append:
  "callbackGetter_loop before name w = (None, wb) \<Longrightarrow>
   callbackGetter_loop (before @ chain) name w = callbackGetter_loop chain name wb"
  by (induction before arbitrary: w) (auto split: prod.splits option.splits)

lemma get_result_nothing:
  "fst (callback (host w)) = (None, None) \<Longrightarrow>
   get_result (invoke ev callback w) =
     (None, w\<lparr>host := snd (callback (host w)), trace := trace w @ [ev]\<rparr>)"
  by (cases "callback (host w)") (simp add: get_result_def invoke_def)

lemma get_result_value:
  "callback (host w) = ((Some v, None), h) \<Longrightarrow>
   get_result (invoke ev callback w) = (Some v, w\<lparr>host := h, trace := trace w @ [ev]\<rparr>)"
  by (simp add: get_result_def invoke_def)

text \<open>
  A condition on the callbacks alone under which callbackGetter finds no value: every
  getProperty callback of the chain yields nothing for the name in every host state.
\<close>

lemma callbackGetter_loop_nothing:
  "\<forall>c\<in>set chain. \<forall>get h. getPropertyCallback c = Some get \<longrightarrow> fst (get name h) = (None, None)
   \<Longrightarrow> fst (callbackGetter_loop chain name w) = None"
proof (induction chain arbitrary: w)
  case Nil
  then show ?case by simp
next
  case (Cons c chain)
  show ?case
  proof (cases "getPropertyCallback c")
    case None
    with Cons show ?thesis by (simp add: callbackGetter_class_eq)
  next
    case (Some get)
    with Cons.prems have "fst (get name (host w)) = (None, None)" by simp
    with Some Cons show ?thesis
      by (simp add: callbackGetter_class_eq get_result_nothing)
  qed
qed

lemmas slot_defs = slot_class_def slot_callbacks_def slot_staticValue_def slot_staticFunction_def
  class_hasProperty_def class_hasPropertyEx_def class_getProperty_def class_getPropertyEx_def
  get_result_def invoke_def throwException_def

text \<open>
  C3. Let the walk of a read reach a class whose hasProperty callback returns true for
  the name (the walk has passed the classes before it and is in state \<open>w0\<close>), so that
  the slot holds callbackGetter; \<open>w1\<close> is the state after the hasProperty callback. If
  in this read no getProperty callback of any class in the chain produces a value or an
  exception for the name (callbackGetter's walk over the whole chain from \<open>w1\<close> ends
  without a value, in state \<open>w2\<close>), reading the property throws the reference error
  \<open>hasProperty callback returned true for a property that doesn't exist.\<close>: the error
  is the result and the pending exception, and the state is otherwise \<open>w2\<close>. If a class
  of the chain defines a getProperty callback that produces a value, the getProperty
  callbacks of the classes before it producing nothing (\<open>wb\<close> is the state they leave),
  the read returns that value and invokes nothing further.
\<close>

theorem hasProperty_without_value_is_ReferenceError:
  fixes name :: name
  defines "propertyName \<equiv> PropertyName (Some name)"
  defines "error \<equiv>
    ReferenceError ''hasProperty callback returned true for a property that doesn't exist.''"
  assumes "classChain classRef = pre @ jsClass # rest"
    and "slot_passes classRef pre propertyName name w = Some w0"
    and "hasPropertyCallback jsClass = Some has"
    and "has name (host w0) = (True, h1)"
    and "w1 = w0\<lparr>host := h1, trace := trace w0 @ [Callback (ref jsClass) HasProperty]\<rparr>"
  shows "(\<forall>w2. callbackGetter_loop (classChain classRef) name w1 = (None, w2) \<longrightarrow>
          get_op classRef propertyName w = (Some error, w2\<lparr>exception := Some error\<rparr>))
    \<and> (\<forall>before getter after wb get v h2.
          classChain classRef = before @ getter # after
          \<and> callbackGetter_loop before name w1 = (None, wb)
          \<and> getPropertyCallback getter = Some get
          \<and> get name (host wb) = ((Some v, None), h2) \<longrightarrow>
          get_op classRef propertyName w =
            (Some v, wb\<lparr>host := h2,
               trace := trace wb @ [Callback (ref getter) GetProperty]\<rparr>))"
proof -
  have uid: "uid propertyName = Some name"
    by (simp add: propertyName_def)
  have slot: "getOwnPropertySlot classRef propertyName w =
      (Some (SlotCustom (kJSPropertyAttributeReadOnly OR kJSPropertyAttributeDontEnum)
         callbackGetter_function), w1)"
    using assms(3-7)
    by (simp add: getOwnPropertySlot_def uid getOwnPropertySlot_loop_passes slot_class_def
        slot_callbacks_has)
  have read: "get_op classRef propertyName w =
      (Some (fst (callbackGetter classRef propertyName w1)),
       snd (callbackGetter classRef propertyName w1))"
    by (simp add: get_op_def slot split: prod.splits)
  have missing: "get_op classRef propertyName w = (Some error, w2\<lparr>exception := Some error\<rparr>)"
    if "callbackGetter_loop (classChain classRef) name w1 = (None, w2)" for w2
  proof -
    from that
    have "callbackGetter classRef propertyName w1 = (error, throwException error w2)"
      by (simp add: callbackGetter_def uid error_def Let_def)
    then show ?thesis
      by (simp add: read throwException_def)
  qed
  have answered: "get_op classRef propertyName w =
            (Some v, wb\<lparr>host := h2,
               trace := trace wb @ [Callback (ref getter) GetProperty]\<rparr>)"
    if "classChain classRef = before @ getter # after"
      and "callbackGetter_loop before name w1 = (None, wb)"
      and "getPropertyCallback getter = Some get"
      and "get name (host wb) = ((Some v, None), h2)"
    for before getter after wb get v h2
  proof -
    have "callbackGetter_loop (classChain classRef) name w1 =
        (Some v, wb\<lparr>host := h2, trace := trace wb @ [Callback (ref getter) GetProperty]\<rparr>)"
      using that
      by (simp add: callbackGetter_loop_append callbackGetter_class_eq get_result_value)
    then have "callbackGetter classRef propertyName w1 =
        (v, wb\<lparr>host := h2, trace := trace wb @ [Callback (ref getter) GetProperty]\<rparr>)"
      by (simp add: callbackGetter_def uid Let_def)
    then show ?thesis
      by (simp add: read)
  qed
  show ?thesis
    using missing answered by blast
qed

theorem hasProperty_without_value_is_ReferenceError_witness:
  "giveWhenFresh ''z'' [] = ((Some (JSNumber 1), None), [])
   \<and> get_op (doubtfulFrom claimingClass) (PropertyName (Some ''z'')) (emptyWorld []) =
     (Some (ReferenceError
        ''hasProperty callback returned true for a property that doesn't exist.''),
      (emptyWorld [])\<lparr>host := [''no z'', ''has z'', ''nothing for z''],
         exception := Some (ReferenceError
           ''hasProperty callback returned true for a property that doesn't exist.''),
         trace := [Callback 16 HasProperty, Callback 6 HasProperty, Callback 7 GetProperty]\<rparr>)
   \<and> get_op (doubtfulFrom answeringClass) (PropertyName (Some ''z'')) (emptyWorld []) =
     (Some (JSNumber 42),
      (emptyWorld [])\<lparr>host := [''no z'', ''has z'', ''get z''],
         trace := [Callback 16 HasProperty, Callback 8 HasProperty, Callback 8 GetProperty]\<rparr>)"
proof -
  let ?w = "emptyWorld [] :: string list world"
  let ?passed = "?w\<lparr>host := [''no z''], trace := [Callback 16 HasProperty]\<rparr>"
  let ?claimed = "?w\<lparr>host := [''no z'', ''has z''],
      trace := [Callback 16 HasProperty, Callback 8 HasProperty]\<rparr>"
  let ?held = "?w\<lparr>host := [''no z'', ''has z''],
      trace := [Callback 16 HasProperty, Callback 6 HasProperty]\<rparr>"
  let ?walked = "?w\<lparr>host := [''no z'', ''has z'', ''nothing for z''],
      trace := [Callback 16 HasProperty, Callback 6 HasProperty, Callback 7 GetProperty]\<rparr>"
  have chain1: "classChain (doubtfulFrom claimingClass) =
      [doubtfulFrom claimingClass] @ claimingClass # [quietClass]"
    and chain2: "classChain (doubtfulFrom answeringClass) =
      [doubtfulFrom answeringClass] @ answeringClass # []"
    by (simp_all add: doubtfulFrom_def claimingClass_def quietClass_def answeringClass_def)
  have passes: "slot_passes c [doubtfulFrom d] (PropertyName (Some ''z'')) ''z'' ?w = Some ?passed"
    for c d :: "string list OpaqueJSClass"
    by (simp add: slot_defs doubtfulFrom_def denyAll_def example_defs)
  have has: "hasPropertyCallback claimingClass = Some claimAll"
    "hasPropertyCallback answeringClass = Some claimAll"
    by (simp_all add: hasPropertyCallback_def claimingClass_def answeringClass_def example_defs)
  have claimed: "claimAll ''z'' (host ?passed) = (True, [''no z'', ''has z''])"
    by (simp add: claimAll_def)
  have after1: "?held = ?passed\<lparr>host := [''no z'', ''has z''],
      trace := trace ?passed @ [Callback (ref claimingClass) HasProperty]\<rparr>"
    by (simp add: claimingClass_def emptyWorld_def)
  have after2: "?claimed = ?passed\<lparr>host := [''no z'', ''has z''],
      trace := trace ?passed @ [Callback (ref answeringClass) HasProperty]\<rparr>"
    by (simp add: answeringClass_def emptyWorld_def)
  have gets: "getPropertyCallback (doubtfulFrom claimingClass) = None"
    "getPropertyCallback claimingClass = None"
    "getPropertyCallback quietClass = Some giveWhenFresh"
    "getPropertyCallback answeringClass = Some give42"
    "getPropertyCallback (doubtfulFrom answeringClass) = None"
    by (simp_all add: getPropertyCallback_def claimingClass_def quietClass_def
        answeringClass_def doubtfulFrom_def example_defs)
  have fresh: "giveWhenFresh ''z'' [] = ((Some (JSNumber 1), None), [])"
    by (simp add: giveWhenFresh_def)
  have no_value: "callbackGetter_loop (classChain (doubtfulFrom claimingClass)) ''z'' ?held =
      (None, ?walked)"
  proof -
    have "ref quietClass = 7"
      by (simp add: quietClass_def)
    then show ?thesis
      by (simp add: chain1 callbackGetter_class_eq gets giveWhenFresh_def get_result_def
          invoke_def emptyWorld_def)
  qed
  have before: "callbackGetter_loop [doubtfulFrom answeringClass] ''z'' ?claimed = (None, ?claimed)"
    by (simp add: callbackGetter_class_eq gets)
  have answer: "give42 ''z'' (host ?claimed) =
      ((Some (JSNumber 42), None), [''no z'', ''has z'', ''get z''])"
    by (simp add: give42_def)
  note at_claiming = hasProperty_without_value_is_ReferenceError
    [OF chain1 passes has(1) claimed after1]
  note at_answering = hasProperty_without_value_is_ReferenceError
    [OF chain2 passes has(2) claimed after2]
  have missing:
    "get_op (doubtfulFrom claimingClass) (PropertyName (Some ''z'')) ?w =
       (Some (ReferenceError
          ''hasProperty callback returned true for a property that doesn't exist.''),
        ?walked\<lparr>exception := Some (ReferenceError
          ''hasProperty callback returned true for a property that doesn't exist.'')\<rparr>)"
    using at_claiming [THEN conjunct1] no_value by blast
  have answered: "get_op (doubtfulFrom answeringClass) (PropertyName (Some ''z'')) ?w =
     (Some (JSNumber 42),
      ?claimed\<lparr>host := [''no z'', ''has z'', ''get z''],
         trace := trace ?claimed @ [Callback (ref answeringClass) GetProperty]\<rparr>)"
    using at_answering [THEN conjunct2] chain2 before gets(4) answer by blast
  show ?thesis
    using fresh missing answered by (simp add: emptyWorld_def answeringClass_def)
qed

subsection \<open>getOwnNonIndexPropertyNames\<close>

lemma addNames_simps:
  "addNames xs [] = xs"
  "addNames xs (y # ys) = addNames (add xs y) ys"
  "addNames xs (ys @ zs) = addNames (addNames xs ys) zs"
  by (simp_all add: addNames_def)

lemma firstOccurrences_Nil: "firstOccurrences [] = []"
  by (simp add: firstOccurrences_def)

lemma firstOccurrences_Cons:
  "firstOccurrences (y # zs) = y # firstOccurrences (filter (\<lambda>z. z \<noteq> y) zs)"
proof -
  have "remdups (xs @ [y]) = remdups (filter (\<lambda>z. z \<noteq> y) xs) @ [y]" for xs
    by (induction xs) auto
  then show ?thesis
    by (simp add: firstOccurrences_def rev_filter)
qed

lemma addNames_firstOccurrences:
  "addNames xs ys = xs @ firstOccurrences (filter (\<lambda>y. y \<notin> set xs) ys)"
proof (induction ys arbitrary: xs)
  case Nil
  show ?case by (simp add: addNames_simps firstOccurrences_Nil)
next
  case (Cons y ys)
  show ?case
  proof (cases "y \<in> set xs")
    case True
    then show ?thesis by (simp add: addNames_simps add_def Cons)
  next
    case False
    have "filter (\<lambda>z. z \<notin> set (xs @ [y])) ys =
        filter (\<lambda>z. z \<noteq> y) (filter (\<lambda>z. z \<notin> set xs) ys)"
      by (simp add: conj_commute)
    with False show ?thesis
      by (simp add: addNames_simps add_def Cons firstOccurrences_Cons)
  qed
qed

lemma names_staticValues_eq:
  "names_staticValues table mode xs =
     addNames xs (map fst (filter (\<lambda>(n, entry). readable entry
        \<and> listed (value_attributes entry) mode) table))"
  by (induction table mode xs rule: names_staticValues.induct)
    (auto simp: addNames_simps readable_def listed_def)

lemma names_staticFunctions_eq:
  "names_staticFunctions table mode xs =
     addNames xs (map fst (filter (\<lambda>(n, entry). listed (function_attributes entry) mode)
        table))"
  by (induction table mode xs rule: names_staticFunctions.induct)
    (auto simp: addNames_simps listed_def)

lemma Parent_getOwnNonIndexPropertyNames_eq:
  "Parent_getOwnNonIndexPropertyNames ps mode xs = addNames xs (ownNames ps mode)"
  by (induction ps mode xs rule: Parent_getOwnNonIndexPropertyNames.induct)
    (auto simp: addNames_simps ownNames_def listed_def split: option.splits)

lemma names_callback_eq:
  "names_callback c xs w =
     (case getPropertyNamesCallback c of
        Some callback \<Rightarrow>
          (addNames xs (fst (callback (host w))),
           w\<lparr>host := snd (callback (host w)),
              trace := trace w @ [Callback (ref c) GetPropertyNames]\<rparr>)
      | None \<Rightarrow> (xs, w))"
  by (auto simp: names_callback_def getPropertyNamesCallback_def invoke_def
      split: option.splits prod.splits)

lemma getOwnNonIndexPropertyNames_loop_eq:
  "fst (getOwnNonIndexPropertyNames_loop chain mode xs w) =
     addNames xs (offeredNames chain mode (host w) @ ownNames (properties w) mode)"
proof (induction chain arbitrary: xs w)
  case Nil
  show ?case by (simp add: Parent_getOwnNonIndexPropertyNames_eq)
next
  case (Cons c chain)
  show ?case
    by (cases "getPropertyNamesCallback c")
      (simp_all add: names_callback_eq Cons names_staticValues_eq names_staticFunctions_eq
        staticValueNames_def staticFunctionNames_def addNames_simps Let_def
        split: option.splits)
qed

text \<open>
  C4. The claim: every static value name that is not DontEnum is enumerated. At the
  input below the static value \<open>w\<close> of \<open>listingClass\<close> is not DontEnum, and the
  enumeration does not contain it: \<open>w\<close> has a setter and no getter, and the code lists
  a static value only when it has a getter for its generation (line 637).
\<close>

theorem static_value_without_getter_is_not_listed:
  "staticValueEntry listingClass ''w'' = Some writeOnlyValue
   \<and> value_attributes writeOnlyValue AND kJSPropertyAttributeDontEnum = 0
   \<and> fst (getOwnNonIndexPropertyNames listingClass \<lparr>includeDontEnumProperties = False\<rparr> []
        listingWorld) = [''a'', ''b'', ''f'', ''c'', ''own'']
   \<and> ''w'' \<notin> set (fst (getOwnNonIndexPropertyNames listingClass
        \<lparr>includeDontEnumProperties = False\<rparr> [] listingWorld))"
proof -
  have names: "fst (getOwnNonIndexPropertyNames listingClass
      \<lparr>includeDontEnumProperties = False\<rparr> [] listingWorld) = [''a'', ''b'', ''f'', ''c'', ''own'']"
    by (simp add: getOwnNonIndexPropertyNames_def listingClass_def baseListing_def
        listingWorld_def names_callback_def invoke_def addNames_def add_def example_defs
        offerAB_def offerAC_def writableValue_def writeOnlyValue_def hiddenValue_def
        plainMethod_def hiddenMethod_def kJSPropertyAttributeNone_def
        kJSPropertyAttributeDontEnum_def kJSPropertyAttributeDontDelete_def)
  show ?thesis
    by (simp add: names)
      (simp add: staticValueEntry_def listingClass_def writeOnlyValue_def
        kJSPropertyAttributeNone_def)
qed

text \<open>
  C4, as amended. The enumeration returns the array it was handed followed by the names
  offered that the array did not hold, each once, in the order of their first offer.
  The names are offered in chain order: for each class the names its getPropertyNames
  callback adds (if it defines one), then the names of its static values that have a
  getter for their generation and are not DontEnum, then the names of its static
  functions that are not DontEnum (DontEnum does not exclude a name when the mode asks
  for non-enumerable names too); after the chain come the names the generic object
  enumerates.
\<close>

theorem getOwnNonIndexPropertyNames_in_chain_order:
  "fst (getOwnNonIndexPropertyNames classRef mode propertyNames w) =
     propertyNames @ firstOccurrences (filter (\<lambda>n. n \<notin> set propertyNames)
       (offeredNames (classChain classRef) mode (host w) @ ownNames (properties w) mode))"
  by (simp add: getOwnNonIndexPropertyNames_def getOwnNonIndexPropertyNames_loop_eq
      addNames_firstOccurrences)

theorem getOwnNonIndexPropertyNames_in_chain_order_witness:
  "offeredNames (classChain listingClass) \<lparr>includeDontEnumProperties = True\<rparr> (host listingWorld)
     = [''a'', ''b'', ''b'', ''hidden'', ''f'', ''secret'', ''a'', ''c'']
   \<and> ownNames (properties listingWorld) \<lparr>includeDontEnumProperties = True\<rparr> = [''own'', ''a'']
   \<and> fst (getOwnNonIndexPropertyNames listingClass \<lparr>includeDontEnumProperties = True\<rparr>
        [''f''] listingWorld) = [''f'', ''a'', ''b'', ''hidden'', ''secret'', ''c'', ''own'']"
proof -
  let ?mode = "\<lparr>includeDontEnumProperties = True\<rparr>"
  have offered: "offeredNames (classChain listingClass) ?mode (host listingWorld)
     = [''a'', ''b'', ''b'', ''hidden'', ''f'', ''secret'', ''a'', ''c'']"
    by (simp add: listingClass_def baseListing_def listingWorld_def
        getPropertyNamesCallback_def staticValueNames_def staticFunctionNames_def
        readable_def listed_def example_defs offerAB_def offerAC_def writableValue_def
        writeOnlyValue_def hiddenValue_def)
  have own: "ownNames (properties listingWorld) ?mode = [''own'', ''a'']"
    by (simp add: ownNames_def listingWorld_def listed_def emptyWorld_def)
  show ?thesis
    using getOwnNonIndexPropertyNames_in_chain_order [of listingClass ?mode "[''f'']" listingWorld]
    by (simp add: offered own firstOccurrences_def)
qed

end
